theory Spec2Isabelle
  imports Main "HOL-Library.Word" "HOL-Library.Signed_Division"
begin

section \<open>Data model of the stream worker (audio/aidl/default/Stream.cpp)\<close>

text \<open>
  Machine integers keep their width: \<open>int32_t\<close> is a 32-bit word read with \<open>sint\<close>,
  \<open>size_t\<close> a 64-bit word read with \<open>unat\<close>, \<open>int64_t\<close> a 64-bit word. Arithmetic on
  them wraps, comparisons on \<open>size_t\<close> are unsigned, comparisons on \<open>int32_t\<close> are
  written with \<open>sint\<close>.
\<close>

type_synonym int32_t = "32 word"
type_synonym int64_t = "64 word"
type_synonym size_t = "64 word"
type_synonym DataBufferElement = "8 word"

text \<open>\<open>StreamDescriptor::State\<close>, the state of the stream's finite state machine.\<close>

datatype State =
  STANDBY | IDLE | ACTIVE | PAUSED | DRAINING | DRAIN_PAUSED
  | TRANSFERRING | TRANSFER_PAUSED | ERROR

datatype DrainMode = DRAIN_UNSPECIFIED | DRAIN_ALL | DRAIN_EARLY_NOTIFY

text \<open>\<open>StreamDescriptor::Command\<close>, a tagged union; the constructors are its tags.\<close>

datatype Command =
  halReservedExit int32_t
  | getStatus
  | start
  | burst int32_t
  | drain DrainMode
  | standby
  | pause
  | flush

text \<open>
  The status codes a reply carries. The code only assigns and compares them, so they
  are an enumeration here.
\<close>

datatype reply_status =
  STATUS_OK | STATUS_BAD_VALUE | STATUS_INVALID_OPERATION | STATUS_NOT_ENOUGH_DATA

text \<open>
  \<open>::android::status_t\<close> as a driver call returns it. The code only tests it against
  \<open>::android::OK\<close>; every other value is \<open>NOT_OK\<close> with its code.
\<close>

datatype status_t = OK | NOT_OK int32_t

text \<open>\<open>StreamDescriptor::Reply\<close>, with \<open>observable\<close> flattened into two fields.\<close>

record Reply =
  status :: reply_status
  state :: State
  observable_frames :: int64_t
  observable_timeNs :: int64_t
  fmqByteCount :: int32_t
  latencyMs :: int32_t

text \<open>\<open>StreamDescriptor::Position::UNKNOWN\<close>.\<close>

definition Position_UNKNOWN :: int64_t where
  "Position_UNKNOWN = - 1"

text \<open>What a worker's \<open>cycle\<close> returns to the thread loop.\<close>

datatype Status = ABORT | CONTINUE | EXIT

text \<open>Calls made on \<open>mDriver\<close> and on \<open>mAsyncCallback\<close>, in the order they are made.\<close>

datatype DriverCall =
  DriverTransfer size_t | DriverDrain DrainMode | DriverStandby | DriverPause | DriverFlush

datatype Notification = onDrainReady | onTransferReady

text \<open>
  The fields of \<open>StreamWorkerCommonLogic\<close> and of the output worker that a cycle reads
  or writes. \<open>mAsyncCallback\<close> is \<open>True\<close> when the pointer is not null. Times are ticks of
  the steady clock in nanoseconds; \<open>mTransientStateDelayMs\<close> is in milliseconds.
  \<open>kLatencyMs\<close> is \<open>Module::kLatencyMs\<close>. \<open>defaultReply\<close> is the value-initialised
  \<open>StreamDescriptor::Reply{}\<close>: the defaults of its fields are declared in the generated
  header of the interface, outside these sources, so the value is a parameter.
\<close>

record Worker =
  mState :: State
  mFrameCount :: int64_t
  mInternalCommandCookie :: int32_t
  mFrameSize :: size_t
  mDataBufferSize :: size_t
  mDataBuffer :: "DataBufferElement list"
  mAsyncCallback :: bool
  mTransientStateStart :: int
  mTransientStateDelayMs :: int
  mForceTransientBurst :: bool
  mForceSynchronousDrain :: bool
  mClosed :: bool
  kLatencyMs :: int32_t
  defaultReply :: Reply

text \<open>
  \<open>StreamDescriptor::Reply reply{}; reply.status = STATUS_BAD_VALUE;\<close> as both cycles
  start. The \<open>state\<close> field is assigned from \<open>mState\<close> before the reply leaves the
  cycle, whatever the path.
\<close>

definition initialReply :: "Worker \<Rightarrow> Reply" where
  "initialReply w = (defaultReply w)\<lparr> status := STATUS_BAD_VALUE \<rparr>"

text \<open>
  Everything outside the worker that one cycle observes: what \<open>readBlocking\<close> on the
  command queue delivers (\<open>None\<close> when it fails), whether \<open>writeBlocking\<close> on the reply
  queue succeeds, the value of the atomic \<open>mIsConnected\<close> when the cycle reads it (each
  path of a cycle reads it once), the clocks, the state of the data queue and the
  results of the driver calls. \<open>drv_transfer\<close> receives the buffer and the requested
  frame count and gives the status, the values left in \<open>actualFrameCount\<close> and
  \<open>latency\<close>, and the buffer after the call. \<open>mq_read n\<close> is \<open>mDataMQ->read\<close> of \<open>n\<close>
  bytes: the bytes, or \<open>None\<close> on failure. \<open>mq_write_ok n\<close> tells whether
  \<open>mDataMQ->write\<close> of \<open>n\<close> bytes succeeds.
\<close>

record Env =
  command :: "Command option"
  replyWriteOk :: bool
  isConnected :: bool
  elapsedRealtimeNano :: int64_t
  now :: int
  nowSwitch :: int
  availableToWrite :: size_t
  availableToRead :: size_t
  mq_write_ok :: "size_t \<Rightarrow> bool"
  mq_read :: "size_t \<Rightarrow> DataBufferElement list option"
  drv_transfer ::
    "DataBufferElement list \<Rightarrow> size_t \<Rightarrow> status_t \<times> size_t \<times> int32_t \<times> DataBufferElement list"
  drv_drain :: "DrainMode \<Rightarrow> status_t"
  drv_standby :: status_t
  drv_pause :: status_t
  drv_flush :: status_t

text \<open>
  What one cycle does to the outside: the reply written to the reply queue (\<open>None\<close>
  when none was written), the bytes written into the data queue, the driver calls and
  the callbacks made, and the status returned.
\<close>

record Effects =
  reply :: "Reply option"
  dataWritten :: "DataBufferElement list"
  driverCalls :: "DriverCall list"
  notifications :: "Notification list"
  result :: Status

section \<open>Worker common logic\<close>

text \<open>\<open>StreamWorkerCommonLogic::populateReply\<close>.\<close>

definition populateReply :: "Worker \<Rightarrow> Env \<Rightarrow> Reply \<Rightarrow> bool \<Rightarrow> Reply" where
  "populateReply w e r isConn =
     (if isConn
      then r\<lparr> status := STATUS_OK, observable_frames := mFrameCount w,
              observable_timeNs := elapsedRealtimeNano e \<rparr>
      else r\<lparr> status := STATUS_OK, observable_frames := Position_UNKNOWN,
              observable_timeNs := Position_UNKNOWN \<rparr>)"

text \<open>\<open>StreamWorkerCommonLogic::populateReplyWrongState\<close> (the warning is not modelled).\<close>

definition populateReplyWrongState :: "Reply \<Rightarrow> Reply" where
  "populateReplyWrongState r = r\<lparr> status := STATUS_INVALID_OPERATION \<rparr>"

text \<open>
  The end of both cycles: \<open>reply.state = mState\<close>, then \<open>writeBlocking\<close> on the reply
  queue; a failed write forces \<open>ERROR\<close> and aborts.
\<close>

definition writeReply ::
  "Worker \<Rightarrow> Env \<Rightarrow> Reply \<Rightarrow> DataBufferElement list \<Rightarrow> DriverCall list \<Rightarrow> Notification list
     \<Rightarrow> Worker \<times> Effects" where
  "writeReply w e r ds cs ns =
     (let r' = r\<lparr> state := mState w \<rparr> in
      if replyWriteOk e
      then (w, \<lparr> reply = Some r', dataWritten = ds, driverCalls = cs,
                 notifications = ns, result = CONTINUE \<rparr>)
      else (w\<lparr> mState := ERROR \<rparr>,
            \<lparr> reply = None, dataWritten = ds, driverCalls = cs,
              notifications = ns, result = ABORT \<rparr>))"

text \<open>
  Modelled from the spec: \<open>setClosed\<close>, declared in core-impl/Stream.h, which is not
  among the sources. The spec has a stream "closed exactly once" and the life of the
  worker end "when the worker observes the internal exit command": the worker is marked
  closed, and nothing else of it is recorded here.
\<close>

definition setClosed :: "Worker \<Rightarrow> Worker" where
  "setClosed w = w\<lparr> mClosed := True \<rparr>"

section \<open>Capture: \<open>StreamInWorkerLogic\<close>\<close>

text \<open>The loop \<open>for (size_t i = 0; i < byteCount; ++i) mDataBuffer[i] = 0\<close>.\<close>

function zeroFill :: "nat \<Rightarrow> nat \<Rightarrow> DataBufferElement list \<Rightarrow> DataBufferElement list" where
  "zeroFill i n buf = (if i < n then zeroFill (Suc i) n (buf[i := 0]) else buf)"
  by pat_completeness auto
termination
  by (relation "measure (\<lambda>(i, n, buf). n - i)") auto

declare zeroFill.simps [simp del]

text \<open>
  \<open>StreamInWorkerLogic::read\<close>. It returns \<open>!fatal\<close>, the worker (the frame counter and
  the scratch buffer change), the reply, the bytes that went into the data queue and
  the driver calls made. The division by \<open>mFrameSize\<close> is the C++ one only for a
  nonzero frame size, which \<open>StreamContext::isValid\<close> checks before a stream exists.
\<close>

definition read ::
  "Worker \<Rightarrow> Env \<Rightarrow> size_t \<Rightarrow> Reply
     \<Rightarrow> bool \<times> Worker \<times> Reply \<times> DataBufferElement list \<times> DriverCall list" where
  "read w e clientSize r =
     (let byteCount = min clientSize (min (availableToWrite e) (mDataBufferSize w));
          isConn = isConnected e;
          (fatal, actualFrameCount, latency, buf, calls) =
            (if isConn
             then (case drv_transfer e (mDataBuffer w) (byteCount div mFrameSize w) of
                     (st, afc, lat, buf') \<Rightarrow>
                       (st \<noteq> OK, afc, lat, buf', [DriverTransfer (byteCount div mFrameSize w)]))
             else (False, byteCount div mFrameSize w, kLatencyMs w,
                   zeroFill 0 (unat byteCount) (mDataBuffer w), []));
          actualByteCount = actualFrameCount * mFrameSize w;
          success = (if actualByteCount > 0 then mq_write_ok e actualByteCount else True);
          w1 = w\<lparr> mDataBuffer := buf \<rparr>
      in if success
         then (let r1 = r\<lparr> fmqByteCount := ucast (scast (fmqByteCount r) + actualByteCount) \<rparr>;
                   w2 = w1\<lparr> mFrameCount := mFrameCount w1 + actualFrameCount \<rparr>;
                   r2 = populateReply w2 e r1 isConn
               in (\<not> fatal, w2, r2\<lparr> latencyMs := latency \<rparr>,
                   (if actualByteCount > 0 then take (unat actualByteCount) buf else []), calls))
         else (\<not> fatal, w1, r\<lparr> status := STATUS_NOT_ENOUGH_DATA, latencyMs := latency \<rparr>,
               [], calls))"

text \<open>
  The \<open>switch\<close> of \<open>StreamInWorkerLogic::cycle\<close> for every command but a
  \<open>halReservedExit\<close> with the right cookie: the worker, the reply before its \<open>state\<close>
  is assigned, the bytes written to the data queue and the driver calls.
\<close>

fun dispatchIn ::
  "Worker \<Rightarrow> Env \<Rightarrow> Command \<Rightarrow> Worker \<times> Reply \<times> DataBufferElement list \<times> DriverCall list" where
  "dispatchIn w e (halReservedExit cookie) = (w, (initialReply w), [], [])"
| "dispatchIn w e getStatus = (w, populateReply w e (initialReply w) (isConnected e), [], [])"
| "dispatchIn w e start =
     (if mState w = STANDBY \<or> mState w = DRAINING
      then (w\<lparr> mState := (if mState w = STANDBY then IDLE else ACTIVE) \<rparr>,
            populateReply w e (initialReply w) (isConnected e), [], [])
      else (w, populateReplyWrongState (initialReply w), [], []))"
| "dispatchIn w e (burst n) =
     (if 0 \<le> sint n
      then (if mState w = IDLE \<or> mState w = ACTIVE \<or> mState w = PAUSED \<or> mState w = DRAINING
            then (case read w e (scast n) (initialReply w) of
                    (ok, w1, r, ds, cs) \<Rightarrow>
                      (let w2 = (if \<not> ok then w1\<lparr> mState := ERROR \<rparr> else w1);
                           w3 = (if mState w2 = IDLE \<or> mState w2 = PAUSED
                                 then w2\<lparr> mState := ACTIVE \<rparr>
                                 else if mState w2 = DRAINING
                                 then w2\<lparr> mState := STANDBY \<rparr>
                                 else w2)
                       in (w3, r, ds, cs)))
            else (w, populateReplyWrongState (initialReply w), [], []))
      else (w, (initialReply w), [], []))"
| "dispatchIn w e (drain mode) =
     (if mode = DRAIN_UNSPECIFIED
      then (if mState w = ACTIVE
            then (if drv_drain e mode = OK
                  then (w\<lparr> mState := DRAINING \<rparr>,
                        populateReply w e (initialReply w) (isConnected e), [], [DriverDrain mode])
                  else (w\<lparr> mState := ERROR \<rparr>, (initialReply w), [], [DriverDrain mode]))
            else (w, populateReplyWrongState (initialReply w), [], []))
      else (w, (initialReply w), [], []))"
| "dispatchIn w e standby =
     (if mState w = IDLE
      then (if drv_standby e = OK
            then (w\<lparr> mState := STANDBY \<rparr>,
                  populateReply w e (initialReply w) (isConnected e), [], [DriverStandby])
            else (w\<lparr> mState := ERROR \<rparr>, (initialReply w), [], [DriverStandby]))
      else (w, populateReplyWrongState (initialReply w), [], []))"
| "dispatchIn w e pause =
     (if mState w = ACTIVE
      then (if drv_pause e = OK
            then (w\<lparr> mState := PAUSED \<rparr>,
                  populateReply w e (initialReply w) (isConnected e), [], [DriverPause])
            else (w\<lparr> mState := ERROR \<rparr>, (initialReply w), [], [DriverPause]))
      else (w, populateReplyWrongState (initialReply w), [], []))"
| "dispatchIn w e flush =
     (if mState w = PAUSED
      then (if drv_flush e = OK
            then (w\<lparr> mState := STANDBY \<rparr>,
                  populateReply w e (initialReply w) (isConnected e), [], [DriverFlush])
            else (w\<lparr> mState := ERROR \<rparr>, (initialReply w), [], [DriverFlush]))
      else (w, populateReplyWrongState (initialReply w), [], []))"

text \<open>
  \<open>StreamInWorkerLogic::cycle\<close>: read one command (a failed read forces \<open>ERROR\<close> and
  aborts), leave without a reply on the internal exit command, otherwise dispatch and
  write the reply.
\<close>

definition cycleIn :: "Worker \<Rightarrow> Env \<Rightarrow> Worker \<times> Effects" where
  "cycleIn w e =
     (case command e of
        None \<Rightarrow>
          (w\<lparr> mState := ERROR \<rparr>,
           \<lparr> reply = None, dataWritten = [], driverCalls = [], notifications = [],
             result = ABORT \<rparr>)
      | Some c \<Rightarrow>
          (if (case c of halReservedExit cookie \<Rightarrow> cookie = mInternalCommandCookie w | _ \<Rightarrow> False)
           then (setClosed w,
                 \<lparr> reply = None, dataWritten = [], driverCalls = [], notifications = [],
                   result = EXIT \<rparr>)
           else (case dispatchIn w e c of
                   (w1, r, ds, cs) \<Rightarrow> writeReply w1 e r ds cs [])))"

section \<open>Playback: \<open>StreamOutWorkerLogic\<close>\<close>

text \<open>
  \<open>std::chrono::duration_cast<std::chrono::milliseconds>(now - mTransientStateStart)\<close>:
  the cast truncates towards zero.
\<close>

definition stateDurationMs :: "int \<Rightarrow> int \<Rightarrow> int" where
  "stateDurationMs t t0 = (t - t0) sdiv 1000000"

text \<open>
  Modelled from the spec: \<open>switchToTransientState\<close>, declared in core-impl/Stream.h, which
  is not among the sources. The spec calls the states it enters "re-armed" transients
  whose delay runs "since entry": the state is entered and the start of the transient
  period is set to the current time of the steady clock.
\<close>

definition switchToTransientState :: "Worker \<Rightarrow> Env \<Rightarrow> State \<Rightarrow> Worker" where
  "switchToTransientState w e s = w\<lparr> mState := s, mTransientStateStart := nowSwitch e \<rparr>"

text \<open>
  The head of \<open>StreamOutWorkerLogic::cycle\<close>, before the command is read: a transient
  state whose delay has elapsed is left, with the callback made if there is one. The
  status a callback returns is only logged.
\<close>

definition resolveTransient :: "Worker \<Rightarrow> Env \<Rightarrow> Worker \<times> Notification list" where
  "resolveTransient w e =
     (if mState w = DRAINING \<or> mState w = TRANSFERRING
      then (if mTransientStateDelayMs w \<le> stateDurationMs (now e) (mTransientStateStart w)
            then (if \<not> mAsyncCallback w
                  then (w\<lparr> mState := IDLE \<rparr>, [])
                  else if mState w = DRAINING
                  then (w\<lparr> mState := IDLE \<rparr>, [onDrainReady])
                  else (w\<lparr> mState := ACTIVE \<rparr>, [onTransferReady]))
            else (w, []))
      else (w, []))"

text \<open>
  \<open>StreamOutWorkerLogic::write\<close> (\<open>write\<close> is a reserved word here, hence the
  suffix). It returns \<open>!fatal\<close>, the worker, the reply and the driver calls made.
\<close>

definition write_out ::
  "Worker \<Rightarrow> Env \<Rightarrow> size_t \<Rightarrow> Reply \<Rightarrow> bool \<times> Worker \<times> Reply \<times> DriverCall list" where
  "write_out w e clientSize r =
     (let readByteCount = availableToRead e;
          rd = (if readByteCount > 0
                then map_option (\<lambda>bytes. bytes @ drop (length bytes) (mDataBuffer w))
                       (mq_read e readByteCount)
                else Some (mDataBuffer w))
      in case rd of
           Some buf0 \<Rightarrow>
             (let isConn = isConnected e;
                  byteCount0 = min clientSize (min readByteCount (mDataBufferSize w));
                  byteCount = (if byteCount0 \<ge> mFrameSize w \<and> mForceTransientBurst w
                               then byteCount0 - mFrameSize w else byteCount0);
                  (fatal, actualFrameCount, latency, buf, calls) =
                    (if isConn
                     then (case drv_transfer e buf0 (byteCount div mFrameSize w) of
                             (st, afc, lat, buf') \<Rightarrow>
                               (st \<noteq> OK, afc, lat, buf',
                                [DriverTransfer (byteCount div mFrameSize w)]))
                     else (False, byteCount div mFrameSize w, kLatencyMs w, buf0, []));
                  actualByteCount = actualFrameCount * mFrameSize w;
                  r1 = r\<lparr> fmqByteCount := ucast (scast (fmqByteCount r) + actualByteCount) \<rparr>;
                  w1 = w\<lparr> mDataBuffer := buf, mFrameCount := mFrameCount w + actualFrameCount \<rparr>;
                  r2 = populateReply w1 e r1 isConn
              in (\<not> fatal, w1, r2\<lparr> latencyMs := latency \<rparr>, calls))
         | None \<Rightarrow>
             (True, w, r\<lparr> status := STATUS_NOT_ENOUGH_DATA, latencyMs := kLatencyMs w \<rparr>, []))"

text \<open>
  The \<open>switch\<close> of \<open>StreamOutWorkerLogic::cycle\<close> for every command but a
  \<open>halReservedExit\<close> with the right cookie.
\<close>

fun dispatchOut :: "Worker \<Rightarrow> Env \<Rightarrow> Command \<Rightarrow> Worker \<times> Reply \<times> DriverCall list" where
  "dispatchOut w e (halReservedExit cookie) = (w, (initialReply w), [])"
| "dispatchOut w e getStatus = (w, populateReply w e (initialReply w) (isConnected e), [])"
| "dispatchOut w e start =
     (case mState w of
        STANDBY \<Rightarrow> (w\<lparr> mState := IDLE \<rparr>, populateReply w e (initialReply w) (isConnected e), [])
      | PAUSED \<Rightarrow> (w\<lparr> mState := ACTIVE \<rparr>, populateReply w e (initialReply w) (isConnected e), [])
      | DRAIN_PAUSED \<Rightarrow>
          (switchToTransientState w e DRAINING,
           populateReply w e (initialReply w) (isConnected e), [])
      | TRANSFER_PAUSED \<Rightarrow>
          (switchToTransientState w e TRANSFERRING,
           populateReply w e (initialReply w) (isConnected e), [])
      | _ \<Rightarrow> (w, populateReplyWrongState (initialReply w), []))"
| "dispatchOut w e (burst n) =
     (if 0 \<le> sint n
      then (if mState w \<noteq> ERROR \<and> mState w \<noteq> TRANSFERRING \<and> mState w \<noteq> TRANSFER_PAUSED
            then (case write_out w e (scast n) (initialReply w) of
                    (ok, w1, r, cs) \<Rightarrow>
                      (let w2 = (if \<not> ok then w1\<lparr> mState := ERROR \<rparr> else w1);
                           w3 =
                             (if mState w2 = STANDBY \<or> mState w2 = DRAIN_PAUSED
                                 \<or> mState w2 = PAUSED
                              then (if \<not> mAsyncCallback w2 \<or> mState w2 \<noteq> DRAIN_PAUSED
                                    then w2\<lparr> mState := PAUSED \<rparr>
                                    else w2\<lparr> mState := TRANSFER_PAUSED \<rparr>)
                              else if mState w2 = IDLE \<or> mState w2 = DRAINING
                                 \<or> mState w2 = ACTIVE
                              then (if \<not> mAsyncCallback w2 \<or> fmqByteCount r = n
                                    then w2\<lparr> mState := ACTIVE \<rparr>
                                    else switchToTransientState w2 e TRANSFERRING)
                              else w2)
                       in (w3, r, cs)))
            else (w, populateReplyWrongState (initialReply w), []))
      else (w, (initialReply w), []))"
| "dispatchOut w e (drain mode) =
     (if mode = DRAIN_ALL \<or> mode = DRAIN_EARLY_NOTIFY
      then (if mState w = ACTIVE \<or> mState w = TRANSFERRING
            then (if drv_drain e mode = OK
                  then ((if mState w = ACTIVE \<and> mForceSynchronousDrain w
                         then w\<lparr> mState := IDLE \<rparr>
                         else switchToTransientState w e DRAINING),
                        populateReply w e (initialReply w) (isConnected e), [DriverDrain mode])
                  else (w\<lparr> mState := ERROR \<rparr>, (initialReply w), [DriverDrain mode]))
            else if mState w = TRANSFER_PAUSED
            then (w\<lparr> mState := DRAIN_PAUSED \<rparr>,
                  populateReply w e (initialReply w) (isConnected e), [])
            else (w, populateReplyWrongState (initialReply w), []))
      else (w, (initialReply w), []))"
| "dispatchOut w e standby =
     (if mState w = IDLE
      then (if drv_standby e = OK
            then (w\<lparr> mState := STANDBY \<rparr>,
                  populateReply w e (initialReply w) (isConnected e), [DriverStandby])
            else (w\<lparr> mState := ERROR \<rparr>, (initialReply w), [DriverStandby]))
      else (w, populateReplyWrongState (initialReply w), []))"
| "dispatchOut w e pause =
     (let nextState = (case mState w of
                         ACTIVE \<Rightarrow> Some PAUSED
                       | DRAINING \<Rightarrow> Some DRAIN_PAUSED
                       | TRANSFERRING \<Rightarrow> Some TRANSFER_PAUSED
                       | _ \<Rightarrow> None)
      in case nextState of
           None \<Rightarrow> (w, populateReplyWrongState (initialReply w), [])
         | Some s \<Rightarrow>
             (if drv_pause e = OK
              then (w\<lparr> mState := s \<rparr>,
                    populateReply w e (initialReply w) (isConnected e), [DriverPause])
              else (w\<lparr> mState := ERROR \<rparr>, (initialReply w), [DriverPause])))"
| "dispatchOut w e flush =
     (if mState w = PAUSED \<or> mState w = DRAIN_PAUSED \<or> mState w = TRANSFER_PAUSED
      then (if drv_flush e = OK
            then (w\<lparr> mState := IDLE \<rparr>,
                  populateReply w e (initialReply w) (isConnected e), [DriverFlush])
            else (w\<lparr> mState := ERROR \<rparr>, (initialReply w), [DriverFlush]))
      else (w, populateReplyWrongState (initialReply w), []))"

text \<open>
  \<open>StreamOutWorkerLogic::cycle\<close>: resolve an elapsed transient state, read one command
  (a failed read forces \<open>ERROR\<close> and aborts), leave without a reply on the internal
  exit command, otherwise dispatch and write the reply.
\<close>

definition cycleOut :: "Worker \<Rightarrow> Env \<Rightarrow> Worker \<times> Effects" where
  "cycleOut w e =
     (case resolveTransient w e of
        (w0, ns) \<Rightarrow>
          (case command e of
             None \<Rightarrow>
               (w0\<lparr> mState := ERROR \<rparr>,
                \<lparr> reply = None, dataWritten = [], driverCalls = [], notifications = ns,
                  result = ABORT \<rparr>)
           | Some c \<Rightarrow>
               (if (case c of halReservedExit cookie \<Rightarrow> cookie = mInternalCommandCookie w0
                            | _ \<Rightarrow> False)
                then (setClosed w0,
                      \<lparr> reply = None, dataWritten = [], driverCalls = [], notifications = ns,
                        result = EXIT \<rparr>)
                else (case dispatchOut w0 e c of
                        (w1, r, cs) \<Rightarrow> writeReply w1 e r [] cs ns))))"

section \<open>Successive cycles\<close>

text \<open>
  Successive calls of a worker's \<open>cycle\<close> on the same worker, the list giving what the
  outside offers to each call in turn: for each call, the worker it leaves and what it
  did. The thread loop, which is outside these sources, makes such calls one after the
  other for as long as they return \<open>CONTINUE\<close>.
\<close>

fun cycles ::
  "(Worker \<Rightarrow> Env \<Rightarrow> Worker \<times> Effects) \<Rightarrow> Worker \<Rightarrow> Env list \<Rightarrow> (Worker \<times> Effects) list" where
  "cycles cyc w [] = []"
| "cycles cyc w (e # es) = (case cyc w e of (w', fx) \<Rightarrow> (w', fx) # cycles cyc w' es)"

text \<open>
  The reply queue after these calls: the replies written, in the order of the calls that
  wrote them.
\<close>

fun replyQueue :: "Effects list \<Rightarrow> Reply list" where
  "replyQueue [] = []"
| "replyQueue (fx # fxs) = (case reply fx of None \<Rightarrow> replyQueue fxs | Some r \<Rightarrow> r # replyQueue fxs)"

text \<open>
  The condition under which a cycle of the output worker takes the branch
  \<open>if (mAsyncCallback == nullptr)\<close> of the transient-state check, the one commented
  "In blocking mode, mState can only be DRAINING".
\<close>

definition blockingResolution :: "Worker \<Rightarrow> Env \<Rightarrow> bool" where
  "blockingResolution w e \<longleftrightarrow>
     (mState w = DRAINING \<or> mState w = TRANSFERRING)
     \<and> mTransientStateDelayMs w \<le> stateDurationMs (now e) (mTransientStateStart w)
     \<and> \<not> mAsyncCallback w"

section \<open>Stream context and transport configuration (Stream.cpp, Module.cpp)\<close>

text \<open>
  A fast message queue as the code observes it: \<open>getQuantumCount\<close>, \<open>getQuantumSize\<close>
  and \<open>isValid\<close>.
\<close>

record MQ =
  getQuantumCount :: size_t
  getQuantumSize :: size_t
  isValidMQ :: bool

text \<open>
  \<open>StreamContext\<close>, with the fields that \<open>fillDescriptor\<close>, \<open>getFrameSize\<close> and
  \<open>isValid\<close> read; a queue pointer that is null is \<open>None\<close>. The format and the channel
  layout are kept abstract.
\<close>

record ('f, 'c) StreamContext =
  mCommandMQ :: "MQ option"
  mReplyMQ :: "MQ option"
  mFormat :: 'f
  mChannelLayout :: 'c
  mSampleRate :: int32_t
  mDataMQ :: "MQ option"

text \<open>
  \<open>StreamDescriptor\<close>: the three queue descriptors (\<open>dupeDesc\<close> of the queue, absent
  until filled in) and the frame geometry, \<open>int frameSizeBytes\<close> and
  \<open>long bufferSizeFrames\<close>.
\<close>

record StreamDescriptor =
  desc_command :: "MQ option"
  desc_reply :: "MQ option"
  frameSizeBytes :: int32_t
  bufferSizeFrames :: int64_t
  desc_audio_fmq :: "MQ option"

text \<open>
  \<open>StreamContext::getFrameSize\<close>. \<open>getFrameSizeInBytes\<close> comes from the audio utilities
  outside these sources and is a parameter, here and below.
\<close>

definition getFrameSize :: "('f \<Rightarrow> 'c \<Rightarrow> size_t) \<Rightarrow> ('f, 'c) StreamContext \<Rightarrow> size_t" where
  "getFrameSize getFrameSizeInBytes ctx = getFrameSizeInBytes (mFormat ctx) (mChannelLayout ctx)"

text \<open>\<open>StreamContext::fillDescriptor\<close>.\<close>

definition fillDescriptor ::
  "('f \<Rightarrow> 'c \<Rightarrow> size_t) \<Rightarrow> ('f, 'c) StreamContext \<Rightarrow> StreamDescriptor \<Rightarrow> StreamDescriptor" where
  "fillDescriptor getFrameSizeInBytes ctx desc =
     (let d1 = (case mCommandMQ ctx of Some q \<Rightarrow> desc\<lparr> desc_command := Some q \<rparr> | None \<Rightarrow> desc);
          d2 = (case mReplyMQ ctx of Some q \<Rightarrow> d1\<lparr> desc_reply := Some q \<rparr> | None \<Rightarrow> d1)
      in case mDataMQ ctx of
           Some q \<Rightarrow>
             (let frameSize = getFrameSize getFrameSizeInBytes ctx
              in d2\<lparr> frameSizeBytes := ucast frameSize,
                     bufferSizeFrames := getQuantumCount q * getQuantumSize q div frameSize,
                     desc_audio_fmq := Some q \<rparr>)
         | None \<Rightarrow> d2)"

text \<open>\<open>StreamContext::isValid\<close>.\<close>

definition isValid :: "('f \<Rightarrow> 'c \<Rightarrow> size_t) \<Rightarrow> ('f, 'c) StreamContext \<Rightarrow> bool" where
  "isValid getFrameSizeInBytes ctx =
     (if (case mCommandMQ ctx of Some q \<Rightarrow> \<not> isValidMQ q | None \<Rightarrow> False) then False
      else if (case mReplyMQ ctx of Some q \<Rightarrow> \<not> isValidMQ q | None \<Rightarrow> False) then False
      else if getFrameSize getFrameSizeInBytes ctx = 0 then False
      else if (case mDataMQ ctx of Some q \<Rightarrow> \<not> isValidMQ q | None \<Rightarrow> False) then False
      else True)"

text \<open>
  \<open>AudioIoFlags\<close> of a port configuration: the tag of the union, and whether the
  \<open>MMAP_NOIRQ\<close> bit of its mask is set (\<open>isBitPositionFlagSet\<close>).
\<close>

datatype AudioIoFlags = Tag_input bool | Tag_output bool

text \<open>
  The port configuration \<open>portConfigIt\<close> points to. The method is private and takes
  the id to have been checked, and the optional fields to hold values.
\<close>

record ('f, 'c) AudioPortConfig =
  format :: 'f
  channelMask :: 'c
  sampleRate :: int32_t
  flags :: AudioIoFlags

text \<open>
  What creating the three queues depends on from outside: the size of one command and of
  one reply, and whether each queue comes out valid.
\<close>

record MQEnv =
  sizeofCommand :: size_t
  sizeofReply :: size_t
  commandMQValid :: bool
  replyMQValid :: bool
  dataMQValid :: bool

datatype Exception = EX_ILLEGAL_ARGUMENT | EX_ILLEGAL_STATE

text \<open>
  \<open>Module::createStreamContext\<close>. The constants \<open>kMinimumStreamBufferSizeFrames\<close> and
  \<open>kMaximumStreamBufferSizeBytes\<close> are declared outside these sources and are
  parameters, given by their values. The comparisons with \<open>in_bufferSizeFrames\<close>, an
  \<open>int64_t\<close>, are signed, and the quotient
  \<open>kMaximumStreamBufferSizeBytes / in_bufferSizeFrames\<close> is a signed 64-bit division,
  truncating, whose result is compared with the unsigned \<open>frameSize\<close> as an unsigned
  number; this is what C++ computes for constants that are not negative and fit 63 bits,
  whatever integer type declares them. \<open>Inl\<close> is the exception of the status returned;
  \<open>Inr None\<close> is \<open>ok()\<close> with \<open>*out_context\<close> left as it was, \<open>Inr (Some c)\<close> is
  \<open>ok()\<close> with the context \<open>c\<close> moved into it. The data queue holds bytes: its quantum
  is one \<open>int8_t\<close>.
\<close>

definition createStreamContext ::
  "int \<Rightarrow> int \<Rightarrow> ('f \<Rightarrow> 'c \<Rightarrow> size_t) \<Rightarrow> MQEnv \<Rightarrow> ('f, 'c) AudioPortConfig \<Rightarrow> int64_t
     \<Rightarrow> Exception + ('f, 'c) StreamContext option" where
  "createStreamContext kMinimumStreamBufferSizeFrames kMaximumStreamBufferSizeBytes
       getFrameSizeInBytes mq portConfig in_bufferSizeFrames =
     (if sint in_bufferSizeFrames \<le> 0 then Inl EX_ILLEGAL_ARGUMENT
      else if sint in_bufferSizeFrames < kMinimumStreamBufferSizeFrames
      then Inl EX_ILLEGAL_ARGUMENT
      else
        (let frameSize = getFrameSizeInBytes (format portConfig) (channelMask portConfig)
         in if frameSize = 0 then Inl EX_ILLEGAL_ARGUMENT
            else if frameSize >
                      word_of_int (kMaximumStreamBufferSizeBytes sdiv sint in_bufferSizeFrames)
            then Inl EX_ILLEGAL_ARGUMENT
            else if (case flags portConfig of
                       Tag_input mmapNoIrq \<Rightarrow> \<not> mmapNoIrq
                     | Tag_output mmapNoIrq \<Rightarrow> \<not> mmapNoIrq)
            then (let temp =
                        \<lparr> mCommandMQ = Some \<lparr> getQuantumCount = 1,
                                              getQuantumSize = sizeofCommand mq,
                                              isValidMQ = commandMQValid mq \<rparr>,
                          mReplyMQ = Some \<lparr> getQuantumCount = 1,
                                            getQuantumSize = sizeofReply mq,
                                            isValidMQ = replyMQValid mq \<rparr>,
                          mFormat = format portConfig,
                          mChannelLayout = channelMask portConfig,
                          mSampleRate = sampleRate portConfig,
                          mDataMQ = Some \<lparr> getQuantumCount = frameSize * in_bufferSizeFrames,
                                           getQuantumSize = 1,
                                           isValidMQ = dataMQValid mq \<rparr> \<rparr>
                  in if isValid getFrameSizeInBytes temp then Inr (Some temp)
                     else Inl EX_ILLEGAL_STATE)
            else Inr None))"

section \<open>Concrete streams\<close>

text \<open>
  A stream of four-byte frames with a sixteen-byte data queue, in \<open>STANDBY\<close> as a worker
  starts, without an asynchronous callback; and surroundings in which every queue
  operation and every driver call succeeds, the driver transferring all it is asked to.
\<close>

definition sampleWorker :: Worker where
  "sampleWorker =
     \<lparr> mState = STANDBY, mFrameCount = 0, mInternalCommandCookie = 77, mFrameSize = 4,
       mDataBufferSize = 16, mDataBuffer = [1, 2, 3, 4, 5, 6, 7, 8, 9, 10, 11, 12, 13, 14, 15, 16],
       mAsyncCallback = False, mTransientStateStart = 0, mTransientStateDelayMs = 0,
       mForceTransientBurst = False, mForceSynchronousDrain = False, mClosed = False,
       kLatencyMs = 10,
       defaultReply = \<lparr> status = STATUS_OK, state = STANDBY, observable_frames = - 1,
                        observable_timeNs = - 1, fmqByteCount = 0, latencyMs = 0 \<rparr> \<rparr>"

definition sampleEnv :: Env where
  "sampleEnv =
     \<lparr> command = Some getStatus, replyWriteOk = True, isConnected = False,
       elapsedRealtimeNano = 1000, now = 5000000, nowSwitch = 5000001,
       availableToWrite = 16, availableToRead = 16,
       mq_write_ok = (\<lambda>n. n \<le> 16),
       mq_read = (\<lambda>n. Some (replicate (unat n) 7)),
       drv_transfer = (\<lambda>buf n. (OK, n, 20, buf)),
       drv_drain = (\<lambda>m. OK), drv_standby = OK, drv_pause = OK, drv_flush = OK \<rparr>"

text \<open>
  A port configuration of two-byte samples on two channels, a frame size that is the
  product of the two, and queues that all come out valid.
\<close>

definition sampleFrameSize :: "nat \<Rightarrow> nat \<Rightarrow> size_t" where
  "sampleFrameSize bytesPerSample channelCount = of_nat (bytesPerSample * channelCount)"

definition samplePortConfig :: "(nat, nat) AudioPortConfig" where
  "samplePortConfig =
     \<lparr> format = 2, channelMask = 2, sampleRate = 48000, flags = Tag_output False \<rparr>"

definition sampleMQEnv :: MQEnv where
  "sampleMQEnv =
     \<lparr> sizeofCommand = 8, sizeofReply = 48, commandMQValid = True, replyMQValid = True,
       dataMQValid = True \<rparr>"

definition emptyDescriptor :: StreamDescriptor where
  "emptyDescriptor =
     \<lparr> desc_command = None, desc_reply = None, frameSizeBytes = 0, bufferSizeFrames = 0,
       desc_audio_fmq = None \<rparr>"

section \<open>What a transfer leaves alone\<close>

lemma write_out_status:
  "write_out w e c r = (ok, w1, r1, cs) \<Longrightarrow>
     status r1 = STATUS_OK \<or> status r1 = STATUS_NOT_ENOUGH_DATA"
  by (auto simp: write_out_def populateReply_def Let_def
           split: option.splits if_splits prod.splits)

lemma write_out_frame:
  "write_out w e c r = (ok, w1, r1, cs) \<Longrightarrow>
     mState w1 = mState w \<and> mAsyncCallback w1 = mAsyncCallback w
     \<and> mInternalCommandCookie w1 = mInternalCommandCookie w \<and> mFrameSize w1 = mFrameSize w"
  by (auto simp: write_out_def populateReply_def Let_def
           split: option.splits if_splits prod.splits)

lemma read_status:
  "read w e c r = (ok, w1, r1, ds, cs) \<Longrightarrow>
     status r1 = STATUS_OK \<or> status r1 = STATUS_NOT_ENOUGH_DATA"
  by (auto simp: read_def populateReply_def Let_def split: if_splits prod.splits)

lemma read_frame:
  "read w e c r = (ok, w1, r1, ds, cs) \<Longrightarrow>
     mState w1 = mState w \<and> mAsyncCallback w1 = mAsyncCallback w
     \<and> mInternalCommandCookie w1 = mInternalCommandCookie w \<and> mFrameSize w1 = mFrameSize w"
  by (auto simp: read_def populateReply_def Let_def split: if_splits prod.splits)

lemma resolveTransient_frame:
  "resolveTransient w e = (w0, ns) \<Longrightarrow>
     mAsyncCallback w0 = mAsyncCallback w
     \<and> mInternalCommandCookie w0 = mInternalCommandCookie w \<and> mFrameSize w0 = mFrameSize w"
  by (auto simp: resolveTransient_def split: if_splits)

section \<open>What a cycle leaves alone, and when it answers\<close>

lemma dispatchIn_frame:
  "dispatchIn w e c = (w1, r, ds, cs) \<Longrightarrow>
     mInternalCommandCookie w1 = mInternalCommandCookie w \<and> mFrameSize w1 = mFrameSize w"
proof (cases c)
  case (burst n)
  assume d: "dispatchIn w e c = (w1, r, ds, cs)"
  obtain ok w' r' ds' cs' where rd: "read w e (scast n) (initialReply w) = (ok, w', r', ds', cs')"
    by (cases "read w e (scast n) (initialReply w)") auto
  from read_frame [OF rd] d burst rd show ?thesis
    by (auto simp: Let_def split: if_splits)
qed (auto split: if_splits)

lemma dispatchOut_frame:
  "dispatchOut w e c = (w1, r, cs) \<Longrightarrow>
     mInternalCommandCookie w1 = mInternalCommandCookie w \<and> mFrameSize w1 = mFrameSize w
     \<and> mAsyncCallback w1 = mAsyncCallback w"
proof (cases c)
  case (burst n)
  assume d: "dispatchOut w e c = (w1, r, cs)"
  obtain ok w' r' cs' where wr: "write_out w e (scast n) (initialReply w) = (ok, w', r', cs')"
    by (cases "write_out w e (scast n) (initialReply w)") auto
  from write_out_frame [OF wr] d burst wr show ?thesis
    by (auto simp: Let_def switchToTransientState_def split: if_splits)
next
  case start
  then show "dispatchOut w e c = (w1, r, cs) \<Longrightarrow> ?thesis"
    by (cases "mState w") (auto simp: switchToTransientState_def)
next
  case pause
  then show "dispatchOut w e c = (w1, r, cs) \<Longrightarrow> ?thesis"
    by (cases "mState w") (auto simp: Let_def split: if_splits)
qed (auto simp: switchToTransientState_def split: if_splits)

lemma cycleIn_frame:
  "cycleIn w e = (w', fx) \<Longrightarrow>
     mInternalCommandCookie w' = mInternalCommandCookie w \<and> mFrameSize w' = mFrameSize w"
proof -
  assume c: "cycleIn w e = (w', fx)"
  show ?thesis
  proof (cases "command e")
    case None
    with c show ?thesis by (auto simp: cycleIn_def)
  next
    case (Some cmd)
    obtain w1 r ds cs where d: "dispatchIn w e cmd = (w1, r, ds, cs)"
      by (cases "dispatchIn w e cmd") auto
    from dispatchIn_frame [OF d] c Some d show ?thesis
      by (auto simp: cycleIn_def writeReply_def setClosed_def Let_def split: if_splits)
  qed
qed

lemma cycleOut_frame:
  "cycleOut w e = (w', fx) \<Longrightarrow>
     mInternalCommandCookie w' = mInternalCommandCookie w \<and> mFrameSize w' = mFrameSize w
     \<and> mAsyncCallback w' = mAsyncCallback w"
proof -
  assume c: "cycleOut w e = (w', fx)"
  obtain w0 ns where rt: "resolveTransient w e = (w0, ns)"
    by (cases "resolveTransient w e")
  note f0 = resolveTransient_frame [OF rt]
  show ?thesis
  proof (cases "command e")
    case None
    with c rt f0 show ?thesis by (auto simp: cycleOut_def)
  next
    case (Some cmd)
    obtain w1 r cs where d: "dispatchOut w0 e cmd = (w1, r, cs)"
      by (cases "dispatchOut w0 e cmd") auto
    from dispatchOut_frame [OF d] f0 c Some d rt show ?thesis
      by (auto simp: cycleOut_def writeReply_def setClosed_def Let_def split: if_splits)
  qed
qed

lemma cycleIn_served:
  assumes "replyWriteOk e" and "command e = Some c"
    and "c \<noteq> halReservedExit (mInternalCommandCookie w)"
  shows "result (snd (cycleIn w e)) = CONTINUE \<and> reply (snd (cycleIn w e)) \<noteq> None"
proof -
  obtain w1 r ds cs where d: "dispatchIn w e c = (w1, r, ds, cs)"
    by (cases "dispatchIn w e c") auto
  with assms show ?thesis
    by (cases c) (auto simp: cycleIn_def writeReply_def Let_def)
qed

lemma cycleOut_served:
  assumes "replyWriteOk e" and "command e = Some c"
    and "c \<noteq> halReservedExit (mInternalCommandCookie w)"
  shows "result (snd (cycleOut w e)) = CONTINUE \<and> reply (snd (cycleOut w e)) \<noteq> None"
proof -
  obtain w0 ns where rt: "resolveTransient w e = (w0, ns)"
    by (cases "resolveTransient w e")
  note f0 = resolveTransient_frame [OF rt]
  obtain w1 r cs where d: "dispatchOut w0 e c = (w1, r, cs)"
    by (cases "dispatchOut w0 e c") auto
  with assms rt f0 show ?thesis
    by (cases c) (auto simp: cycleOut_def writeReply_def Let_def)
qed

lemma cycles_served:
  assumes fr: "\<And>w e w' fx. cyc w e = (w', fx) \<Longrightarrow>
                 mInternalCommandCookie w' = mInternalCommandCookie w"
    and sv: "\<And>w e c. replyWriteOk e \<Longrightarrow> command e = Some c \<Longrightarrow>
                 c \<noteq> halReservedExit (mInternalCommandCookie w) \<Longrightarrow>
                 result (snd (cyc w e)) = CONTINUE \<and> reply (snd (cyc w e)) \<noteq> None"
  shows "\<forall>e \<in> set es. replyWriteOk e
            \<and> (\<exists>c. command e = Some c \<and> c \<noteq> halReservedExit (mInternalCommandCookie w)) \<Longrightarrow>
         map Some (replyQueue (map snd (cycles cyc w es))) = map (reply \<circ> snd) (cycles cyc w es)
         \<and> (\<forall>fx \<in> set (map snd (cycles cyc w es)). result fx = CONTINUE)"
proof (induction es arbitrary: w)
  case Nil
  show ?case by simp
next
  case (Cons e es)
  obtain w1 fx where c: "cyc w e = (w1, fx)" by (cases "cyc w e")
  from Cons.prems obtain cmd where
    e: "replyWriteOk e" "command e = Some cmd" "cmd \<noteq> halReservedExit (mInternalCommandCookie w)"
    by auto
  from sv [OF e] c have k: "result fx = CONTINUE" and rp: "reply fx \<noteq> None" by auto
  from fr [OF c] have ck: "mInternalCommandCookie w1 = mInternalCommandCookie w" .
  have "\<forall>e \<in> set es. replyWriteOk e
            \<and> (\<exists>c. command e = Some c \<and> c \<noteq> halReservedExit (mInternalCommandCookie w1))"
    using Cons.prems ck by simp
  from Cons.IH [OF this] c k rp show ?case
    by auto
qed

lemma length_cycles: "length (cycles cyc w es) = length es"
  by (induction es arbitrary: w) (auto split: prod.splits)

section \<open>Machine arithmetic of the buffer sizes\<close>

lemma sdiv_nonneg: "0 \<le> (k::int) \<Longrightarrow> 0 < l \<Longrightarrow> k sdiv l = k div l"
  by (simp add: signed_divide_int_def sgn_if)

lemma div_less_mult_int:
  assumes "0 < (l::int)"
  shows "k div l < a \<longleftrightarrow> k < a * l"
proof
  have e: "k = l * (k div l) + k mod l" by simp
  assume "k div l < a"
  then have "k div l + 1 \<le> a" by simp
  with assms have "(k div l + 1) * l \<le> a * l" by (simp add: mult_right_mono)
  moreover have "(k div l + 1) * l = l * (k div l) + l" by (simp add: algebra_simps)
  moreover from assms have "k mod l < l" by simp
  ultimately show "k < a * l" using e by linarith
next
  have e: "k = l * (k div l) + k mod l" by simp
  assume "k < a * l"
  moreover from assms have "0 \<le> k mod l" by simp
  ultimately have "l * (k div l) < a * l" using e by linarith
  then have "(k div l) * l < a * l" by (simp add: mult.commute)
  with assms show "k div l < a" by (simp add: mult_less_cancel_right)
qed

lemma uint_word_of_int_small:
  "0 \<le> k \<Longrightarrow> k < 2 ^ 64 \<Longrightarrow> uint (word_of_int k :: 64 word) = k"
  by (simp add: uint_word_of_int)

lemma ceiling_check:
  fixes fs n :: "64 word"
  assumes "0 \<le> kMax" and "kMax < 2 ^ 63" and "0 < sint n"
  shows "fs > word_of_int (kMax sdiv sint n) \<longleftrightarrow> kMax < uint fs * sint n"
proof -
  from assms have q: "kMax sdiv sint n = kMax div sint n" by (simp add: sdiv_nonneg)
  from assms have "0 \<le> kMax div sint n" by (simp add: pos_imp_zdiv_nonneg_iff)
  moreover have "kMax div sint n \<le> kMax"
    using assms by (metis int_div_le_self div_0 order_le_less)
  ultimately have "uint (word_of_int (kMax div sint n) :: 64 word) = kMax div sint n"
    using assms(2) by (intro uint_word_of_int_small) auto
  then have "fs > word_of_int (kMax sdiv sint n) \<longleftrightarrow> kMax div sint n < uint fs"
    by (simp add: q word_less_def)
  with assms(3) show ?thesis by (simp add: div_less_mult_int)
qed

lemma sint_pos_uint:
  fixes n :: "64 word"
  assumes "0 < sint n"
  shows "uint n = sint n"
proof -
  have "sint n < 2 ^ 64"
    using sint_lt [of n] by simp
  with assms have "take_bit 64 (sint n) = sint n"
    by (intro take_bit_int_eq_self) auto
  then show ?thesis by (simp add: uint_sint)
qed

lemma create_ok:
  fixes n :: "64 word"
  assumes r: "createStreamContext kMin kMax gfs mq cfg n = Inr (Some ctx)"
    and k: "0 \<le> kMax" "kMax < 2 ^ 63"
  shows "0 < sint n \<and> kMin \<le> sint n \<and> gfs (format cfg) (channelMask cfg) \<noteq> 0
         \<and> uint (gfs (format cfg) (channelMask cfg)) * sint n \<le> kMax
         \<and> mFormat ctx = format cfg \<and> mChannelLayout ctx = channelMask cfg
         \<and> mDataMQ ctx = Some \<lparr> getQuantumCount = gfs (format cfg) (channelMask cfg) * n,
                                  getQuantumSize = 1, isValidMQ = dataMQValid mq \<rparr>
         \<and> isValid gfs ctx"
proof -
  from r have p: "0 < sint n" and m: "kMin \<le> sint n"
    by (auto simp: createStreamContext_def split: if_splits)
  from r p have z: "gfs (format cfg) (channelMask cfg) \<noteq> 0"
    and c: "\<not> gfs (format cfg) (channelMask cfg) > word_of_int (kMax sdiv sint n)"
    by (auto simp: createStreamContext_def Let_def split: if_splits)
  from c ceiling_check [OF k p]
  have b: "uint (gfs (format cfg) (channelMask cfg)) * sint n \<le> kMax" by simp
  from r p m z c have "mFormat ctx = format cfg \<and> mChannelLayout ctx = channelMask cfg
         \<and> mDataMQ ctx = Some \<lparr> getQuantumCount = gfs (format cfg) (channelMask cfg) * n,
                                  getQuantumSize = 1, isValidMQ = dataMQValid mq \<rparr>
         \<and> isValid gfs ctx"
    by (auto simp: createStreamContext_def Let_def split: if_splits)
  with p m z b show ?thesis by simp
qed

lemma uint_mult_small:
  fixes a b :: "64 word"
  assumes "uint a * uint b < 2 ^ 64"
  shows "uint (a * b) = uint a * uint b"
  using assms by (simp add: uint_word_ariths)

lemma buffer_frames:
  fixes fs n :: "64 word"
  assumes "fs \<noteq> 0" and "0 < sint n" and "uint fs * sint n \<le> kMax" and "kMax < 2 ^ 63"
  shows "fs * n * 1 div fs = n" and "uint (fs * n) = uint fs * sint n"
proof -
  from assms(2) have un: "uint n = sint n" by (rule sint_pos_uint)
  with assms(3,4) have "uint fs * uint n < 2 ^ 64" by simp
  then have m: "uint (fs * n) = uint fs * uint n" by (rule uint_mult_small)
  with un show "uint (fs * n) = uint fs * sint n" by simp
  from assms(1) have "uint fs \<noteq> 0" by (simp add: uint_0_iff)
  moreover have "0 \<le> uint fs" by simp
  ultimately have "0 < uint fs" by linarith
  then have "uint (fs * n) div uint fs = uint n" using m by simp
  then have "uint (fs * n * 1 div fs) = uint n" by (simp add: uint_div)
  then show "fs * n * 1 div fs = n" by (simp add: word_uint_eq_iff)
qed







section \<open>Playback: when a burst is rejected\<close>

text \<open>
  Claim C1. In a cycle of a playback stream that reads a burst command with a non-negative
  byte count and writes its reply, the burst is rejected, that is the reply carries
  \<open>STATUS_INVALID_OPERATION\<close> and the state of the machine is still the one the command
  found, if and only if that state is \<open>ERROR\<close>, \<open>TRANSFERRING\<close> or \<open>TRANSFER_PAUSED\<close>.
  The state the command finds is the state after the check of the transient states at
  the head of the cycle, which runs before the command is read. This holds for every
  worker, so for every reachable one.
\<close>

theorem burst_rejected_iff:
  assumes "command e = Some (burst n)" and "0 \<le> sint n" and "replyWriteOk e"
    and "mFrameSize w \<noteq> 0"
  shows "(\<exists>r. reply (snd (cycleOut w e)) = Some r
            \<and> status r = STATUS_INVALID_OPERATION
            \<and> state r = mState (fst (resolveTransient w e))
            \<and> mState (fst (cycleOut w e)) = mState (fst (resolveTransient w e)))
         \<longleftrightarrow> mState (fst (resolveTransient w e)) \<in> {ERROR, TRANSFERRING, TRANSFER_PAUSED}"
proof -
  obtain w0 ns where rt: "resolveTransient w e = (w0, ns)"
    by (cases "resolveTransient w e")
  show ?thesis
  proof (cases "mState w0 \<in> {ERROR, TRANSFERRING, TRANSFER_PAUSED}")
    case True
    then show ?thesis
      using assms rt
      by (auto simp: cycleOut_def writeReply_def populateReplyWrongState_def initialReply_def)
  next
    case False
    obtain ok w1 r1 cs where wr: "write_out w0 e (scast n) (initialReply w0) = (ok, w1, r1, cs)"
      by (cases "write_out w0 e (scast n) (initialReply w0)") auto
    from write_out_status [OF wr] have "status r1 \<noteq> STATUS_INVALID_OPERATION" by auto
    with False show ?thesis
      using assms rt wr
      by (auto simp: cycleOut_def writeReply_def Let_def switchToTransientState_def)
  qed
qed

theorem burst_rejected_iff_witness:
  "command (sampleEnv\<lparr>command := Some (burst 8)\<rparr>) = Some (burst 8)
   \<and> 0 \<le> sint (8 :: int32_t)
   \<and> replyWriteOk (sampleEnv\<lparr>command := Some (burst 8)\<rparr>)
   \<and> mFrameSize (sampleWorker\<lparr>mState := TRANSFER_PAUSED\<rparr>) \<noteq> 0
   \<and> mState (fst (resolveTransient (sampleWorker\<lparr>mState := TRANSFER_PAUSED\<rparr>)
                 (sampleEnv\<lparr>command := Some (burst 8)\<rparr>))) = TRANSFER_PAUSED
   \<and> (\<exists>r. reply (snd (cycleOut (sampleWorker\<lparr>mState := TRANSFER_PAUSED\<rparr>)
                      (sampleEnv\<lparr>command := Some (burst 8)\<rparr>))) = Some r
          \<and> status r = STATUS_INVALID_OPERATION
          \<and> state r = TRANSFER_PAUSED
          \<and> mState (fst (cycleOut (sampleWorker\<lparr>mState := TRANSFER_PAUSED\<rparr>)
                      (sampleEnv\<lparr>command := Some (burst 8)\<rparr>))) = TRANSFER_PAUSED)"
proof -
  let ?w = "sampleWorker\<lparr>mState := TRANSFER_PAUSED\<rparr>"
  let ?e = "sampleEnv\<lparr>command := Some (burst 8)\<rparr>"
  have h1: "command ?e = Some (burst 8)" by simp
  have h2: "0 \<le> sint (8 :: int32_t)" by simp
  have h3: "replyWriteOk ?e" by (simp add: sampleEnv_def)
  have h4: "mFrameSize ?w \<noteq> 0" by (simp add: sampleWorker_def)
  have st: "mState (fst (resolveTransient ?w ?e)) = TRANSFER_PAUSED"
    by (simp add: resolveTransient_def)
  from burst_rejected_iff [OF h1 h2 h3 h4] st h1 h2 h3 h4 show ?thesis
    by simp
qed

section \<open>Playback: a driver call that fails\<close>

text \<open>
  Claim C2, as stated, has the reply of a cycle whose driver call failed not report the
  \<open>ERROR\<close> state. It does: a \<open>standby\<close> in \<open>IDLE\<close> whose driver call fails is
  answered with the state \<open>ERROR\<close>, since the reply takes its state from \<open>mState\<close> after
  the command has been handled.
\<close>

theorem driver_failure_reply_counterexample:
  "map_option state
     (reply (snd (cycleOut (sampleWorker\<lparr>mState := IDLE\<rparr>)
                    (sampleEnv\<lparr>command := Some standby, drv_standby := NOT_OK 1\<rparr>))))
     = Some ERROR"
  by (simp add: cycleOut_def resolveTransient_def writeReply_def sampleEnv_def)

text \<open>
  Claim C2, amended. In a playback cycle that writes its reply, when the command is
  \<open>standby\<close>, \<open>pause\<close>, \<open>flush\<close> or \<open>drain\<close> in a state in which the worker calls the
  driver for it, and that call returns something other than \<open>OK\<close>, the worker forces the
  state to \<open>ERROR\<close>, and the reply that is still written carries the status
  \<open>STATUS_BAD_VALUE\<close> the reply started with and the state \<open>ERROR\<close>; the driver call
  is the only one made and the cycle returns \<open>CONTINUE\<close>.
\<close>

theorem driver_failure_reply:
  assumes "replyWriteOk e" and "resolveTransient w e = (w0, ns)"
    and "(command e = Some standby \<and> mState w0 = IDLE \<and> drv_standby e \<noteq> OK
            \<and> call = DriverStandby)
         \<or> (command e = Some pause \<and> mState w0 \<in> {ACTIVE, DRAINING, TRANSFERRING}
            \<and> drv_pause e \<noteq> OK \<and> call = DriverPause)
         \<or> (command e = Some flush \<and> mState w0 \<in> {PAUSED, DRAIN_PAUSED, TRANSFER_PAUSED}
            \<and> drv_flush e \<noteq> OK \<and> call = DriverFlush)
         \<or> (command e = Some (drain m) \<and> m \<in> {DRAIN_ALL, DRAIN_EARLY_NOTIFY}
            \<and> mState w0 \<in> {ACTIVE, TRANSFERRING} \<and> drv_drain e m \<noteq> OK
            \<and> call = DriverDrain m)"
  shows "fst (cycleOut w e) = w0\<lparr>mState := ERROR\<rparr>
         \<and> (\<exists>r. reply (snd (cycleOut w e)) = Some r
                \<and> status r = STATUS_BAD_VALUE \<and> state r = ERROR)
         \<and> driverCalls (snd (cycleOut w e)) = [call]
         \<and> result (snd (cycleOut w e)) = CONTINUE"
  using assms(3)
proof (elim disjE conjE)
  assume "command e = Some standby" "mState w0 = IDLE" "drv_standby e \<noteq> OK" "call = DriverStandby"
  then show ?thesis
    using assms(1,2) by (simp add: cycleOut_def writeReply_def initialReply_def)
next
  assume "command e = Some pause" "mState w0 \<in> {ACTIVE, DRAINING, TRANSFERRING}"
    "drv_pause e \<noteq> OK" "call = DriverPause"
  then show ?thesis
    using assms(1,2) by (auto simp: cycleOut_def writeReply_def initialReply_def)
next
  assume "command e = Some flush" "mState w0 \<in> {PAUSED, DRAIN_PAUSED, TRANSFER_PAUSED}"
    "drv_flush e \<noteq> OK" "call = DriverFlush"
  then show ?thesis
    using assms(1,2) by (auto simp: cycleOut_def writeReply_def initialReply_def)
next
  assume "command e = Some (drain m)" "m \<in> {DRAIN_ALL, DRAIN_EARLY_NOTIFY}"
    "mState w0 \<in> {ACTIVE, TRANSFERRING}" "drv_drain e m \<noteq> OK" "call = DriverDrain m"
  then show ?thesis
    using assms(1,2) by (auto simp: cycleOut_def writeReply_def initialReply_def)
qed

theorem driver_failure_reply_witness:
  "replyWriteOk (sampleEnv\<lparr>command := Some standby, drv_standby := NOT_OK 1\<rparr>)
   \<and> resolveTransient (sampleWorker\<lparr>mState := IDLE\<rparr>)
        (sampleEnv\<lparr>command := Some standby, drv_standby := NOT_OK 1\<rparr>)
       = (sampleWorker\<lparr>mState := IDLE\<rparr>, [])
   \<and> command (sampleEnv\<lparr>command := Some standby, drv_standby := NOT_OK 1\<rparr>) = Some standby
   \<and> drv_standby (sampleEnv\<lparr>command := Some standby, drv_standby := NOT_OK 1\<rparr>) \<noteq> OK
   \<and> fst (cycleOut (sampleWorker\<lparr>mState := IDLE\<rparr>)
             (sampleEnv\<lparr>command := Some standby, drv_standby := NOT_OK 1\<rparr>))
       = sampleWorker\<lparr>mState := ERROR\<rparr>
   \<and> (\<exists>r. reply (snd (cycleOut (sampleWorker\<lparr>mState := IDLE\<rparr>)
                           (sampleEnv\<lparr>command := Some standby, drv_standby := NOT_OK 1\<rparr>)))
              = Some r
          \<and> status r = STATUS_BAD_VALUE \<and> state r = ERROR)
   \<and> driverCalls (snd (cycleOut (sampleWorker\<lparr>mState := IDLE\<rparr>)
                        (sampleEnv\<lparr>command := Some standby, drv_standby := NOT_OK 1\<rparr>)))
       = [DriverStandby]"
proof -
  let ?w = "sampleWorker\<lparr>mState := IDLE\<rparr>"
  let ?e = "sampleEnv\<lparr>command := Some standby, drv_standby := NOT_OK 1\<rparr>"
  have h1: "replyWriteOk ?e" by (simp add: sampleEnv_def)
  have h2: "resolveTransient ?w ?e = (?w, [])" by (simp add: resolveTransient_def)
  have h3: "(command ?e = Some standby \<and> mState ?w = IDLE \<and> drv_standby ?e \<noteq> OK
            \<and> DriverStandby = DriverStandby)
         \<or> (command ?e = Some pause \<and> mState ?w \<in> {ACTIVE, DRAINING, TRANSFERRING}
            \<and> drv_pause ?e \<noteq> OK \<and> DriverStandby = DriverPause)
         \<or> (command ?e = Some flush \<and> mState ?w \<in> {PAUSED, DRAIN_PAUSED, TRANSFER_PAUSED}
            \<and> drv_flush ?e \<noteq> OK \<and> DriverStandby = DriverFlush)
         \<or> (command ?e = Some (drain DRAIN_ALL) \<and> DRAIN_ALL \<in> {DRAIN_ALL, DRAIN_EARLY_NOTIFY}
            \<and> mState ?w \<in> {ACTIVE, TRANSFERRING} \<and> drv_drain ?e DRAIN_ALL \<noteq> OK
            \<and> DriverStandby = DriverDrain DRAIN_ALL)"
    by simp
  from driver_failure_reply [OF h1 h2 h3] h1 h2 show ?thesis by simp
qed

section \<open>One reply per command, in order\<close>

text \<open>
  Claim C3, as stated, has every command consumed from the command queue answered by
  exactly one reply. The internal exit command is consumed and not answered: a cycle that
  reads \<open>halReservedExit\<close> with the worker's own cookie closes the worker and returns
  \<open>EXIT\<close> without writing a reply, in the capture worker and in the playback worker.
\<close>

theorem one_reply_per_command_counterexample:
  "command (sampleEnv\<lparr>command := Some (halReservedExit 77)\<rparr>) = Some (halReservedExit 77)
   \<and> mInternalCommandCookie sampleWorker = 77
   \<and> reply (snd (cycleIn sampleWorker (sampleEnv\<lparr>command := Some (halReservedExit 77)\<rparr>)))
       = None
   \<and> result (snd (cycleIn sampleWorker (sampleEnv\<lparr>command := Some (halReservedExit 77)\<rparr>)))
       = EXIT
   \<and> reply (snd (cycleOut sampleWorker (sampleEnv\<lparr>command := Some (halReservedExit 77)\<rparr>)))
       = None
   \<and> result (snd (cycleOut sampleWorker (sampleEnv\<lparr>command := Some (halReservedExit 77)\<rparr>)))
       = EXIT"
  by (simp add: cycleIn_def cycleOut_def resolveTransient_def sampleWorker_def setClosed_def)

text \<open>
  Claim C3, amended. For a capture or a playback worker and any sequence of successive
  cycles in each of which a command other than the exit command with the worker's cookie
  is read and the reply queue accepts the reply: every cycle returns \<open>CONTINUE\<close>, so the
  loop makes them all; the reply queue ends up with exactly as many replies as commands
  were read; and its entries are, in order, the replies of the successive cycles, each
  cycle having written exactly one.
\<close>

theorem one_reply_per_command:
  assumes "cyc = cycleIn \<or> cyc = cycleOut"
    and "mFrameSize w \<noteq> 0"
    and "\<forall>e \<in> set es. replyWriteOk e
           \<and> (\<exists>c. command e = Some c \<and> c \<noteq> halReservedExit (mInternalCommandCookie w))"
  shows "length (replyQueue (map snd (cycles cyc w es))) = length es
         \<and> map Some (replyQueue (map snd (cycles cyc w es))) = map (reply \<circ> snd) (cycles cyc w es)
         \<and> (\<forall>fx \<in> set (map snd (cycles cyc w es)). result fx = CONTINUE)"
proof -
  have main: "map Some (replyQueue (map snd (cycles cyc w es))) = map (reply \<circ> snd) (cycles cyc w es)
         \<and> (\<forall>fx \<in> set (map snd (cycles cyc w es)). result fx = CONTINUE)"
    using assms(1)
  proof
    assume "cyc = cycleIn"
    moreover have "map Some (replyQueue (map snd (cycles cycleIn w es)))
                     = map (reply \<circ> snd) (cycles cycleIn w es)
         \<and> (\<forall>fx \<in> set (map snd (cycles cycleIn w es)). result fx = CONTINUE)"
    proof (rule cycles_served)
      show "mInternalCommandCookie w' = mInternalCommandCookie w"
        if "cycleIn w e = (w', fx)" for w e w' fx
        using cycleIn_frame [OF that] by simp
      show "result (snd (cycleIn w e)) = CONTINUE \<and> reply (snd (cycleIn w e)) \<noteq> None"
        if "replyWriteOk e" "command e = Some c"
          "c \<noteq> halReservedExit (mInternalCommandCookie w)" for w e c
        using that by (rule cycleIn_served)
      show "\<forall>e \<in> set es. replyWriteOk e
           \<and> (\<exists>c. command e = Some c \<and> c \<noteq> halReservedExit (mInternalCommandCookie w))"
        by (rule assms(3))
    qed
    ultimately show ?thesis by simp
  next
    assume "cyc = cycleOut"
    moreover have "map Some (replyQueue (map snd (cycles cycleOut w es)))
                     = map (reply \<circ> snd) (cycles cycleOut w es)
         \<and> (\<forall>fx \<in> set (map snd (cycles cycleOut w es)). result fx = CONTINUE)"
    proof (rule cycles_served)
      show "mInternalCommandCookie w' = mInternalCommandCookie w"
        if "cycleOut w e = (w', fx)" for w e w' fx
        using cycleOut_frame [OF that] by simp
      show "result (snd (cycleOut w e)) = CONTINUE \<and> reply (snd (cycleOut w e)) \<noteq> None"
        if "replyWriteOk e" "command e = Some c"
          "c \<noteq> halReservedExit (mInternalCommandCookie w)" for w e c
        using that by (rule cycleOut_served)
      show "\<forall>e \<in> set es. replyWriteOk e
           \<and> (\<exists>c. command e = Some c \<and> c \<noteq> halReservedExit (mInternalCommandCookie w))"
        by (rule assms(3))
    qed
    ultimately show ?thesis by simp
  qed
  then have "length (map Some (replyQueue (map snd (cycles cyc w es))))
               = length (map (reply \<circ> snd) (cycles cyc w es))"
    by simp
  then have "length (replyQueue (map snd (cycles cyc w es))) = length es"
    by (simp add: length_cycles)
  with main show ?thesis by simp
qed

theorem one_reply_per_command_witness:
  "mFrameSize sampleWorker \<noteq> 0
   \<and> replyWriteOk sampleEnv
   \<and> start \<noteq> halReservedExit (mInternalCommandCookie sampleWorker)
   \<and> burst 8 \<noteq> halReservedExit (mInternalCommandCookie sampleWorker)
   \<and> length (replyQueue (map snd (cycles cycleIn sampleWorker
                  [sampleEnv\<lparr>command := Some start\<rparr>, sampleEnv\<lparr>command := Some (burst 8)\<rparr>])))
       = 2"
proof -
  let ?es = "[sampleEnv\<lparr>command := Some start\<rparr>, sampleEnv\<lparr>command := Some (burst 8)\<rparr>]"
  have h1: "cycleIn = cycleIn \<or> cycleIn = cycleOut" by simp
  have h2: "mFrameSize sampleWorker \<noteq> 0" by (simp add: sampleWorker_def)
  have h3: "\<forall>e \<in> set ?es. replyWriteOk e
         \<and> (\<exists>c. command e = Some c \<and> c \<noteq> halReservedExit (mInternalCommandCookie sampleWorker))"
    by (simp add: sampleEnv_def)
  have "length (replyQueue (map snd (cycles cycleIn sampleWorker ?es))) = length ?es"
    using one_reply_per_command [OF h1 h2 h3] by (rule conjunct1)
  moreover have "length ?es = 2" by simp
  moreover have "replyWriteOk sampleEnv" by (simp add: sampleEnv_def)
  ultimately show ?thesis using h2 by simp
qed

section \<open>Playback: transient states resolve at the head of the cycle\<close>

text \<open>
  Claim C4. A playback cycle entered in \<open>DRAINING\<close> or \<open>TRANSFERRING\<close> once the
  configured delay has elapsed since the state was entered leaves that state before it
  reads a command, whatever the command queue then delivers: without an asynchronous
  callback the state becomes \<open>IDLE\<close> and nothing is notified; with a callback
  \<open>DRAINING\<close> becomes \<open>IDLE\<close> with \<open>onDrainReady\<close> and \<open>TRANSFERRING\<close> becomes
  \<open>ACTIVE\<close> with \<open>onTransferReady\<close>. The rest of the cycle is the cycle of a worker
  that was in the resolved state from the start, so the command is processed in the
  resolved state.
\<close>

theorem transient_resolution:
  assumes "mState w = DRAINING \<or> mState w = TRANSFERRING"
    and "mTransientStateDelayMs w \<le> stateDurationMs (now e) (mTransientStateStart w)"
  shows "let s' = (if mAsyncCallback w \<and> mState w = TRANSFERRING then ACTIVE else IDLE);
             ns = (if \<not> mAsyncCallback w then []
                   else if mState w = DRAINING then [onDrainReady] else [onTransferReady])
         in resolveTransient w e = (w\<lparr>mState := s'\<rparr>, ns)
            \<and> cycleOut w e =
                (case cycleOut (w\<lparr>mState := s'\<rparr>) e of
                   (w', fx) \<Rightarrow> (w', fx\<lparr>notifications := ns\<rparr>))"
proof -
  define s' where "s' = (if mAsyncCallback w \<and> mState w = TRANSFERRING then ACTIVE else IDLE)"
  define ns where "ns = (if \<not> mAsyncCallback w then []
                   else if mState w = DRAINING then [onDrainReady] else [onTransferReady])"
  have rt: "resolveTransient w e = (w\<lparr>mState := s'\<rparr>, ns)"
    using assms by (auto simp: resolveTransient_def s'_def ns_def)
  have r2: "resolveTransient (w\<lparr>mState := s'\<rparr>) e = (w\<lparr>mState := s'\<rparr>, [])"
    by (simp add: resolveTransient_def s'_def)
  have "cycleOut w e =
          (case cycleOut (w\<lparr>mState := s'\<rparr>) e of (w', fx) \<Rightarrow> (w', fx\<lparr>notifications := ns\<rparr>))"
    unfolding cycleOut_def rt r2
    by (simp add: writeReply_def Let_def split: option.splits prod.splits)
  with rt show ?thesis
    unfolding s'_def ns_def Let_def by blast
qed

theorem transient_resolution_witness:
  "mState (sampleWorker\<lparr>mState := TRANSFERRING, mAsyncCallback := True,
                         mTransientStateDelayMs := 3\<rparr>) = TRANSFERRING
   \<and> mTransientStateDelayMs (sampleWorker\<lparr>mState := TRANSFERRING, mAsyncCallback := True,
                         mTransientStateDelayMs := 3\<rparr>)
       \<le> stateDurationMs (now sampleEnv)
            (mTransientStateStart (sampleWorker\<lparr>mState := TRANSFERRING, mAsyncCallback := True,
                         mTransientStateDelayMs := 3\<rparr>))
   \<and> resolveTransient (sampleWorker\<lparr>mState := TRANSFERRING, mAsyncCallback := True,
                         mTransientStateDelayMs := 3\<rparr>) sampleEnv
       = (sampleWorker\<lparr>mState := ACTIVE, mAsyncCallback := True, mTransientStateDelayMs := 3\<rparr>,
          [onTransferReady])"
proof -
  let ?w = "sampleWorker\<lparr>mState := TRANSFERRING, mAsyncCallback := True,
                         mTransientStateDelayMs := 3\<rparr>"
  have h1: "mState ?w = DRAINING \<or> mState ?w = TRANSFERRING" by simp
  have h2: "mTransientStateDelayMs ?w \<le> stateDurationMs (now sampleEnv) (mTransientStateStart ?w)"
    by (simp add: sampleWorker_def sampleEnv_def stateDurationMs_def)
  have "resolveTransient ?w sampleEnv = (?w\<lparr>mState := ACTIVE\<rparr>, [onTransferReady])"
    using transient_resolution [OF h1 h2] by (simp add: Let_def)
  with h2 show ?thesis by simp
qed

section \<open>Capture: drain, then burst\<close>

text \<open>
  Claim C5, as stated, has every next burst in \<open>DRAINING\<close> end in \<open>STANDBY\<close>. A burst
  whose driver transfer fails ends in \<open>ERROR\<close>, and a burst with a negative byte count
  leaves the state \<open>DRAINING\<close>.
\<close>

theorem capture_drain_then_burst_counterexample:
  "mState (fst (cycleIn (sampleWorker\<lparr>mState := DRAINING\<rparr>)
                  (sampleEnv\<lparr>command := Some (burst 8), isConnected := True,
                              drv_transfer := (\<lambda>buf k. (NOT_OK 1, 0, 20, buf))\<rparr>))) = ERROR
   \<and> mState (fst (cycleIn (sampleWorker\<lparr>mState := DRAINING\<rparr>)
                  (sampleEnv\<lparr>command := Some (burst (- 1))\<rparr>))) = DRAINING"
  by (simp add: cycleIn_def read_def writeReply_def sampleEnv_def Let_def)

text \<open>
  Claim C5, amended. For a capture stream, in cycles that write their replies: a drain
  command with mode \<open>DRAIN_UNSPECIFIED\<close> read in state \<open>ACTIVE\<close> whose driver call
  succeeds takes the state to \<open>DRAINING\<close>, and a burst command with a non-negative byte
  count read next, in \<open>DRAINING\<close>, takes it to \<open>STANDBY\<close> provided \<open>read\<close> reports no
  fatal driver error. Both replies report the new state.
\<close>

theorem capture_drain_then_burst:
  assumes "mState w = ACTIVE"
    and "command e1 = Some (drain DRAIN_UNSPECIFIED)"
    and "drv_drain e1 DRAIN_UNSPECIFIED = OK"
    and "replyWriteOk e1"
    and "command e2 = Some (burst n)" and "0 \<le> sint n"
    and "mFrameSize w \<noteq> 0"
    and "fst (read (fst (cycleIn w e1)) e2 (scast n) (initialReply (fst (cycleIn w e1))))"
    and "replyWriteOk e2"
  shows "mState (fst (cycleIn w e1)) = DRAINING
         \<and> map_option state (reply (snd (cycleIn w e1))) = Some DRAINING
         \<and> mState (fst (cycleIn (fst (cycleIn w e1)) e2)) = STANDBY
         \<and> map_option state (reply (snd (cycleIn (fst (cycleIn w e1)) e2))) = Some STANDBY"
proof -
  have c1: "cycleIn w e1 =
              (w\<lparr>mState := DRAINING\<rparr>,
               \<lparr> reply = Some ((populateReply w e1 (initialReply w) (isConnected e1))\<lparr>state := DRAINING\<rparr>),
                 dataWritten = [], driverCalls = [DriverDrain DRAIN_UNSPECIFIED],
                 notifications = [], result = CONTINUE \<rparr>)"
    using assms(1-4) by (simp add: cycleIn_def writeReply_def)
  let ?w1 = "w\<lparr>mState := DRAINING\<rparr>"
  obtain ok w2 r ds cs where rd: "read ?w1 e2 (scast n) (initialReply ?w1) = (ok, w2, r, ds, cs)"
    by (cases "read ?w1 e2 (scast n) (initialReply ?w1)") auto
  from assms(8) c1 rd have ok by simp
  from read_frame [OF rd] have st: "mState w2 = DRAINING" by simp
  have "mState (fst (cycleIn ?w1 e2)) = STANDBY
        \<and> map_option state (reply (snd (cycleIn ?w1 e2))) = Some STANDBY"
    using assms(5,6,9) rd \<open>ok\<close> st
    by (simp add: cycleIn_def writeReply_def Let_def)
  with c1 show ?thesis by simp
qed

theorem capture_drain_then_burst_witness:
  "mState (sampleWorker\<lparr>mState := ACTIVE\<rparr>) = ACTIVE
   \<and> drv_drain (sampleEnv\<lparr>command := Some (drain DRAIN_UNSPECIFIED)\<rparr>) DRAIN_UNSPECIFIED = OK
   \<and> replyWriteOk sampleEnv
   \<and> 0 \<le> sint (8 :: int32_t)
   \<and> mFrameSize (sampleWorker\<lparr>mState := ACTIVE\<rparr>) \<noteq> 0
   \<and> fst (read (fst (cycleIn (sampleWorker\<lparr>mState := ACTIVE\<rparr>)
                       (sampleEnv\<lparr>command := Some (drain DRAIN_UNSPECIFIED)\<rparr>)))
            (sampleEnv\<lparr>command := Some (burst 8)\<rparr>) (scast (8 :: int32_t))
            (initialReply
               (fst (cycleIn (sampleWorker\<lparr>mState := ACTIVE\<rparr>)
                       (sampleEnv\<lparr>command := Some (drain DRAIN_UNSPECIFIED)\<rparr>)))))
   \<and> mState (fst (cycleIn (sampleWorker\<lparr>mState := ACTIVE\<rparr>)
                    (sampleEnv\<lparr>command := Some (drain DRAIN_UNSPECIFIED)\<rparr>))) = DRAINING
   \<and> mState (fst (cycleIn (fst (cycleIn (sampleWorker\<lparr>mState := ACTIVE\<rparr>)
                                    (sampleEnv\<lparr>command := Some (drain DRAIN_UNSPECIFIED)\<rparr>)))
                    (sampleEnv\<lparr>command := Some (burst 8)\<rparr>))) = STANDBY"
proof -
  let ?w = "sampleWorker\<lparr>mState := ACTIVE\<rparr>"
  let ?e1 = "sampleEnv\<lparr>command := Some (drain DRAIN_UNSPECIFIED)\<rparr>"
  let ?e2 = "sampleEnv\<lparr>command := Some (burst 8)\<rparr>"
  have h1: "mState ?w = ACTIVE" by simp
  have h2: "command ?e1 = Some (drain DRAIN_UNSPECIFIED)" by simp
  have h3: "drv_drain ?e1 DRAIN_UNSPECIFIED = OK" by (simp add: sampleEnv_def)
  have h4: "replyWriteOk ?e1" by (simp add: sampleEnv_def)
  have h5: "command ?e2 = Some (burst 8)" by simp
  have h6: "0 \<le> sint (8 :: int32_t)" by simp
  have h7: "mFrameSize ?w \<noteq> 0" by (simp add: sampleWorker_def)
  have h8: "fst (read (fst (cycleIn ?w ?e1)) ?e2 (scast (8 :: int32_t))
                 (initialReply (fst (cycleIn ?w ?e1))))"
    by (simp add: cycleIn_def writeReply_def read_def sampleEnv_def Let_def)
  have h9: "replyWriteOk ?e2" by (simp add: sampleEnv_def)
  from capture_drain_then_burst [OF h1 h2 h3 h4 h5 h6 h7 h8 h9] h1 h3 h4 h6 h7 h8
  show ?thesis by (simp add: sampleEnv_def)
qed

section \<open>Capture: what a burst transfers\<close>





section \<open>Transport configuration\<close>

text \<open>
  Claim C7. Whenever \<open>createStreamContext\<close> succeeds with a context, for limits that are
  not negative and fit 63 bits, the context has a data queue, and the descriptor filled
  from the context exports as \<open>bufferSizeFrames\<close> the requested number of frames, with
  the frame size of the format and channel layout times \<open>bufferSizeFrames\<close> equal to the
  capacity of the data queue in bytes (quantum count times quantum size): as numbers,
  without wrap-around, and so also in the 64-bit arithmetic of the code.
\<close>

theorem descriptor_round_trip:
  fixes n :: "64 word"
  assumes "createStreamContext kMin kMax gfs mq cfg n = Inr (Some ctx)"
    and "0 \<le> kMax" and "kMax < 2 ^ 63"
  shows "\<exists>q. mDataMQ ctx = Some q
           \<and> getFrameSize gfs ctx = gfs (format cfg) (channelMask cfg)
           \<and> bufferSizeFrames (fillDescriptor gfs ctx desc) = n
           \<and> uint (getFrameSize gfs ctx) * sint (bufferSizeFrames (fillDescriptor gfs ctx desc))
               = uint (getQuantumCount q) * uint (getQuantumSize q)
           \<and> getFrameSize gfs ctx * bufferSizeFrames (fillDescriptor gfs ctx desc)
               = getQuantumCount q * getQuantumSize q"
proof -
  let ?fs = "gfs (format cfg) (channelMask cfg)"
  let ?q = "\<lparr> getQuantumCount = ?fs * n, getQuantumSize = 1, isValidMQ = dataMQValid mq \<rparr>"
  note ok = create_ok [OF assms]
  then have q: "mDataMQ ctx = Some ?q" and f: "getFrameSize gfs ctx = ?fs"
    by (simp_all add: getFrameSize_def)
  from ok have nz: "?fs \<noteq> 0" and p: "0 < sint n" and b: "uint ?fs * sint n \<le> kMax"
    by simp_all
  note bf = buffer_frames [OF nz p b assms(3)]
  have d: "bufferSizeFrames (fillDescriptor gfs ctx desc) = n"
    using q f bf(1) by (simp add: fillDescriptor_def Let_def split: option.splits)
  have "uint (getFrameSize gfs ctx) * sint (bufferSizeFrames (fillDescriptor gfs ctx desc))
          = uint (getQuantumCount ?q) * uint (getQuantumSize ?q)"
    using d f bf(2) by simp
  moreover have "getFrameSize gfs ctx * bufferSizeFrames (fillDescriptor gfs ctx desc)
          = getQuantumCount ?q * getQuantumSize ?q"
    using d f by simp
  ultimately show ?thesis using q f d by blast
qed

theorem descriptor_round_trip_witness:
  "createStreamContext 256 (2 ^ 30) sampleFrameSize sampleMQEnv samplePortConfig 1024
     = Inr (Some \<lparr> mCommandMQ = Some \<lparr> getQuantumCount = 1, getQuantumSize = 8, isValidMQ = True \<rparr>,
                     mReplyMQ = Some \<lparr> getQuantumCount = 1, getQuantumSize = 48, isValidMQ = True \<rparr>,
                     mFormat = 2, mChannelLayout = 2, mSampleRate = 48000,
                     mDataMQ = Some \<lparr> getQuantumCount = 4096, getQuantumSize = 1,
                                      isValidMQ = True \<rparr> \<rparr>)
   \<and> (0 :: int) \<le> 2 ^ 30 \<and> (2 :: int) ^ 30 < 2 ^ 63
   \<and> bufferSizeFrames
        (fillDescriptor sampleFrameSize
           \<lparr> mCommandMQ = Some \<lparr> getQuantumCount = 1, getQuantumSize = 8, isValidMQ = True \<rparr>,
             mReplyMQ = Some \<lparr> getQuantumCount = 1, getQuantumSize = 48, isValidMQ = True \<rparr>,
             mFormat = 2, mChannelLayout = 2, mSampleRate = 48000,
             mDataMQ = Some \<lparr> getQuantumCount = 4096, getQuantumSize = 1, isValidMQ = True \<rparr> \<rparr>
           emptyDescriptor) = 1024"
proof -
  let ?ctx = "\<lparr> mCommandMQ = Some \<lparr> getQuantumCount = 1, getQuantumSize = 8, isValidMQ = True \<rparr>,
             mReplyMQ = Some \<lparr> getQuantumCount = 1, getQuantumSize = 48, isValidMQ = True \<rparr>,
             mFormat = 2 :: nat, mChannelLayout = 2 :: nat, mSampleRate = 48000,
             mDataMQ = Some \<lparr> getQuantumCount = 4096, getQuantumSize = 1, isValidMQ = True \<rparr> \<rparr>"
  have h1: "createStreamContext 256 (2 ^ 30) sampleFrameSize sampleMQEnv samplePortConfig 1024
              = Inr (Some ?ctx)"
    by (simp add: createStreamContext_def sampleFrameSize_def sampleMQEnv_def
          samplePortConfig_def isValid_def getFrameSize_def Let_def)
  have h2: "(0 :: int) \<le> 2 ^ 30" by simp
  have h3: "(2 :: int) ^ 30 < 2 ^ 63" by simp
  from descriptor_round_trip [OF h1 h2 h3, of emptyDescriptor]
  have "bufferSizeFrames (fillDescriptor sampleFrameSize ?ctx emptyDescriptor) = 1024"
    by blast
  with h1 h2 h3 show ?thesis by blast
qed

text \<open>
  Claim C8, as stated, has the configuration succeed with a valid transport whenever the
  buffer size passes the three checks and the frame size is not zero. For a port
  configuration with the \<open>MMAP_NOIRQ\<close> flag the method returns \<open>ok()\<close> without creating
  any context, and when a queue comes out invalid it fails with \<open>EX_ILLEGAL_STATE\<close>.
\<close>

theorem createStreamContext_outcome_counterexample:
  "createStreamContext 256 (2 ^ 30) sampleFrameSize sampleMQEnv
       (samplePortConfig\<lparr>flags := Tag_output True\<rparr>) 1024 = Inr None
   \<and> createStreamContext 256 (2 ^ 30) sampleFrameSize (sampleMQEnv\<lparr>dataMQValid := False\<rparr>)
       samplePortConfig 1024 = Inl EX_ILLEGAL_STATE
   \<and> sampleFrameSize (format samplePortConfig) (channelMask samplePortConfig) = 4"
  by (simp add: createStreamContext_def sampleFrameSize_def sampleMQEnv_def
        samplePortConfig_def isValid_def getFrameSize_def Let_def)

text \<open>
  Claim C8, amended. For limits that are not negative and fit 63 bits:
  \<open>createStreamContext\<close> fails with \<open>EX_ILLEGAL_ARGUMENT\<close> whenever the requested buffer
  size in frames is not positive, or is below the minimum, or its product with the frame
  size exceeds the maximum number of bytes, or the frame size is zero. Otherwise: for a
  port configuration without the \<open>MMAP_NOIRQ\<close> flag it succeeds with a context that
  \<open>isValid\<close> accepts, whose data queue holds frame size times buffer size bytes, when
  the three queues it creates are valid, and fails with \<open>EX_ILLEGAL_STATE\<close> when one of
  them is not; for a port configuration with the flag it returns \<open>ok()\<close> and creates
  no context.
\<close>

theorem createStreamContext_outcome:
  fixes n :: "64 word"
  assumes "0 \<le> kMax" and "kMax < 2 ^ 63"
  shows "(sint n \<le> 0 \<or> sint n < kMin
            \<or> kMax < uint (gfs (format cfg) (channelMask cfg)) * sint n
            \<or> gfs (format cfg) (channelMask cfg) = 0
          \<longrightarrow> createStreamContext kMin kMax gfs mq cfg n = Inl EX_ILLEGAL_ARGUMENT)
         \<and> (0 < sint n \<and> kMin \<le> sint n
              \<and> uint (gfs (format cfg) (channelMask cfg)) * sint n \<le> kMax
              \<and> gfs (format cfg) (channelMask cfg) \<noteq> 0
            \<longrightarrow> (if (case flags cfg of Tag_input mmapNoIrq \<Rightarrow> mmapNoIrq
                                      | Tag_output mmapNoIrq \<Rightarrow> mmapNoIrq)
                 then createStreamContext kMin kMax gfs mq cfg n = Inr None
                 else if commandMQValid mq \<and> replyMQValid mq \<and> dataMQValid mq
                 then (\<exists>ctx. createStreamContext kMin kMax gfs mq cfg n = Inr (Some ctx)
                          \<and> isValid gfs ctx
                          \<and> mDataMQ ctx
                              = Some \<lparr> getQuantumCount = gfs (format cfg) (channelMask cfg) * n,
                                       getQuantumSize = 1, isValidMQ = True \<rparr>)
                 else createStreamContext kMin kMax gfs mq cfg n = Inl EX_ILLEGAL_STATE))"
proof (cases "0 < sint n")
  case False
  then show ?thesis by (simp add: createStreamContext_def)
next
  case True
  note cc = ceiling_check [OF assms True, of "gfs (format cfg) (channelMask cfg)"]
  show ?thesis
  proof (cases "gfs (format cfg) (channelMask cfg) = 0")
    case z: True
    with True assms show ?thesis by (simp add: createStreamContext_def)
  next
    case nz: False
    show ?thesis
    proof (cases "flags cfg")
      case (Tag_input b)
      with True nz cc show ?thesis
        by (auto simp: createStreamContext_def Let_def isValid_def getFrameSize_def)
    next
      case (Tag_output b)
      with True nz cc show ?thesis
        by (auto simp: createStreamContext_def Let_def isValid_def getFrameSize_def)
    qed
  qed
qed

theorem createStreamContext_outcome_witness:
  "(0 :: int) \<le> 2 ^ 30 \<and> (2 :: int) ^ 30 < 2 ^ 63
   \<and> sint (0 :: int64_t) \<le> 0
   \<and> createStreamContext 256 (2 ^ 30) sampleFrameSize sampleMQEnv samplePortConfig 0
       = Inl EX_ILLEGAL_ARGUMENT
   \<and> 0 < sint (1024 :: int64_t) \<and> 256 \<le> sint (1024 :: int64_t)
   \<and> uint (sampleFrameSize (format samplePortConfig) (channelMask samplePortConfig))
         * sint (1024 :: int64_t) \<le> 2 ^ 30
   \<and> sampleFrameSize (format samplePortConfig) (channelMask samplePortConfig) \<noteq> 0
   \<and> (\<exists>ctx. createStreamContext 256 (2 ^ 30) sampleFrameSize sampleMQEnv samplePortConfig 1024
                 = Inr (Some ctx)
              \<and> isValid sampleFrameSize ctx)"
proof -
  have h1: "(0 :: int) \<le> 2 ^ 30" by simp
  have h2: "(2 :: int) ^ 30 < 2 ^ 63" by simp
  have fs: "sampleFrameSize (format samplePortConfig) (channelMask samplePortConfig) = 4"
    by (simp add: sampleFrameSize_def samplePortConfig_def)
  have a: "sint (0 :: int64_t) \<le> 0" by simp
  have b: "0 < sint (1024 :: int64_t)" "256 \<le> sint (1024 :: int64_t)"
    "uint (sampleFrameSize (format samplePortConfig) (channelMask samplePortConfig))
       * sint (1024 :: int64_t) \<le> 2 ^ 30"
    "sampleFrameSize (format samplePortConfig) (channelMask samplePortConfig) \<noteq> 0"
    by (simp_all add: fs)
  have fl: "flags samplePortConfig = Tag_output False"
    and mv: "commandMQValid sampleMQEnv" "replyMQValid sampleMQEnv" "dataMQValid sampleMQEnv"
    by (simp_all add: samplePortConfig_def sampleMQEnv_def)
  from createStreamContext_outcome [OF h1 h2, of 0 256 sampleFrameSize samplePortConfig sampleMQEnv] a
  have r0: "createStreamContext 256 (2 ^ 30) sampleFrameSize sampleMQEnv samplePortConfig 0
              = Inl EX_ILLEGAL_ARGUMENT"
    by blast
  from createStreamContext_outcome
         [OF h1 h2, of 1024 256 sampleFrameSize samplePortConfig sampleMQEnv] b fl mv
  have r1: "\<exists>ctx. createStreamContext 256 (2 ^ 30) sampleFrameSize sampleMQEnv samplePortConfig 1024
                 = Inr (Some ctx)
              \<and> isValid sampleFrameSize ctx"
    by auto
  from h1 h2 a r0 b r1 show ?thesis by blast
qed

section \<open>Malformed commands\<close>

text \<open>
  Claim C9. For a capture stream and for a playback stream alike, a cycle that reads a
  malformed command, an exit command whose cookie is not the worker's internal cookie or a
  burst with a negative byte count, and writes its reply rejects the command: the reply
  carries \<open>STATUS_BAD_VALUE\<close> and the state the command found, the worker is left exactly
  as the command found it, and the cycle returns \<open>CONTINUE\<close>, so the loop goes on. For
  playback the worker the command finds is the one after the check of the transient states
  at the head of the cycle.
\<close>

theorem malformed_command_rejected:
  assumes "replyWriteOk e"
    and "(\<exists>k. command e = Some (halReservedExit k) \<and> k \<noteq> mInternalCommandCookie w)
         \<or> (\<exists>n. command e = Some (burst n) \<and> sint n < 0)"
  shows "(case cycleIn w e of
            (w', fx) \<Rightarrow>
              w' = w \<and> result fx = CONTINUE
              \<and> (\<exists>r. reply fx = Some r \<and> status r = STATUS_BAD_VALUE \<and> state r = mState w))
         \<and> (case cycleOut w e of
            (w', fx) \<Rightarrow>
              w' = fst (resolveTransient w e) \<and> result fx = CONTINUE
              \<and> (\<exists>r. reply fx = Some r \<and> status r = STATUS_BAD_VALUE
                     \<and> state r = mState (fst (resolveTransient w e))))"
proof -
  obtain w0 ns where rt: "resolveTransient w e = (w0, ns)"
    by (cases "resolveTransient w e")
  from resolveTransient_frame [OF rt]
  have ck: "mInternalCommandCookie w0 = mInternalCommandCookie w" by simp
  from assms(2) show ?thesis
  proof (elim disjE exE conjE)
    fix k
    assume "command e = Some (halReservedExit k)" and "k \<noteq> mInternalCommandCookie w"
    then show ?thesis
      using assms(1) rt ck
      by (simp add: cycleIn_def cycleOut_def writeReply_def initialReply_def)
  next
    fix n
    assume "command e = Some (burst n)" and "sint n < 0"
    then show ?thesis
      using assms(1) rt
      by (simp add: cycleIn_def cycleOut_def writeReply_def initialReply_def)
  qed
qed

theorem malformed_command_rejected_witness:
  "replyWriteOk (sampleEnv\<lparr>command := Some (burst (- 1))\<rparr>)
   \<and> command (sampleEnv\<lparr>command := Some (burst (- 1))\<rparr>) = Some (burst (- 1))
   \<and> sint (- 1 :: int32_t) < 0
   \<and> fst (cycleIn sampleWorker (sampleEnv\<lparr>command := Some (burst (- 1))\<rparr>)) = sampleWorker
   \<and> fst (cycleOut sampleWorker (sampleEnv\<lparr>command := Some (burst (- 1))\<rparr>)) = sampleWorker
   \<and> result (snd (cycleOut sampleWorker (sampleEnv\<lparr>command := Some (burst (- 1))\<rparr>))) = CONTINUE"
proof -
  let ?e = "sampleEnv\<lparr>command := Some (burst (- 1))\<rparr>"
  have h1: "replyWriteOk ?e" by (simp add: sampleEnv_def)
  have h2: "(\<exists>k. command ?e = Some (halReservedExit k) \<and> k \<noteq> mInternalCommandCookie sampleWorker)
         \<or> (\<exists>n. command ?e = Some (burst n) \<and> sint n < 0)"
    by simp
  have rt: "resolveTransient sampleWorker ?e = (sampleWorker, [])"
    by (simp add: resolveTransient_def sampleWorker_def)
  from malformed_command_rejected [OF h1 h2] rt h1 show ?thesis
    by (auto split: prod.splits)
qed

section \<open>Playback without a callback never transfers asynchronously\<close>

lemma resolveTransient_blocking:
  "\<not> mAsyncCallback w \<Longrightarrow> mState w \<notin> {TRANSFERRING, TRANSFER_PAUSED} \<Longrightarrow>
   resolveTransient w e = (w0, ns) \<Longrightarrow> mState w0 \<notin> {TRANSFERRING, TRANSFER_PAUSED}"
  by (auto simp: resolveTransient_def split: if_splits)

lemma dispatchOut_blocking:
  assumes "\<not> mAsyncCallback w" and "mState w \<notin> {TRANSFERRING, TRANSFER_PAUSED}"
    and d: "dispatchOut w e c = (w1, r, cs)"
  shows "mState w1 \<notin> {TRANSFERRING, TRANSFER_PAUSED}"
proof (cases c)
  case (burst n)
  obtain ok w' r' cs' where wr: "write_out w e (scast n) (initialReply w) = (ok, w', r', cs')"
    by (cases "write_out w e (scast n) (initialReply w)") auto
  from write_out_frame [OF wr] d burst wr assms(1,2) show ?thesis
    by (auto simp: Let_def split: if_splits)
next
  case start
  with d assms(1,2) show ?thesis
    by (cases "mState w") (auto simp: switchToTransientState_def)
next
  case pause
  with d assms(1,2) show ?thesis
    by (cases "mState w") (auto simp: Let_def split: if_splits)
next
  case (drain m)
  with d assms(1,2) show ?thesis
    by (auto simp: switchToTransientState_def split: if_splits)
qed (use d assms(1,2) in \<open>auto split: if_splits\<close>)

lemma cycleOut_blocking:
  assumes "\<not> mAsyncCallback w" and "mState w \<notin> {TRANSFERRING, TRANSFER_PAUSED}"
    and c: "cycleOut w e = (w', fx)"
  shows "mState w' \<notin> {TRANSFERRING, TRANSFER_PAUSED}"
proof -
  obtain w0 ns where rt: "resolveTransient w e = (w0, ns)"
    by (cases "resolveTransient w e")
  from resolveTransient_frame [OF rt] assms(1) have cb: "\<not> mAsyncCallback w0" by simp
  from resolveTransient_blocking [OF assms(1,2) rt]
  have s0: "mState w0 \<notin> {TRANSFERRING, TRANSFER_PAUSED}" .
  show ?thesis
  proof (cases "command e")
    case None
    with c rt show ?thesis by (auto simp: cycleOut_def)
  next
    case (Some cmd)
    obtain w1 r cs where d: "dispatchOut w0 e cmd = (w1, r, cs)"
      by (cases "dispatchOut w0 e cmd") auto
    from dispatchOut_blocking [OF cb s0 d] s0 c Some d rt show ?thesis
      by (auto simp: cycleOut_def writeReply_def setClosed_def Let_def split: if_splits)
  qed
qed

text \<open>
  Claim C10. A playback worker without an asynchronous callback that starts outside
  \<open>TRANSFERRING\<close> and \<open>TRANSFER_PAUSED\<close>, as every worker does since it starts in
  \<open>STANDBY\<close>, is never in one of these two states, whatever sequence of cycles it goes
  through, and it never acquires a callback: entering either state takes a callback. So
  whenever a cycle takes the branch of the transient-state check for a null callback, the
  one that sets the state to \<open>IDLE\<close>, the state is \<open>DRAINING\<close>.
\<close>

theorem blocking_mode_never_transferring:
  assumes "\<not> mAsyncCallback w0" and "mState w0 \<notin> {TRANSFERRING, TRANSFER_PAUSED}"
    and "mFrameSize w0 \<noteq> 0"
  shows "\<forall>w \<in> set (w0 # map fst (cycles cycleOut w0 es)).
           \<not> mAsyncCallback w
           \<and> mState w \<notin> {TRANSFERRING, TRANSFER_PAUSED}
           \<and> (\<forall>e. blockingResolution w e \<longrightarrow> mState w = DRAINING)"
proof -
  have inv: "\<forall>w \<in> set (w0 # map fst (cycles cycleOut w0 es)).
               \<not> mAsyncCallback w \<and> mState w \<notin> {TRANSFERRING, TRANSFER_PAUSED}"
    using assms(1,2)
  proof (induction es arbitrary: w0)
    case Nil
    then show ?case by simp
  next
    case (Cons e es)
    obtain w1 fx where c: "cycleOut w0 e = (w1, fx)" by (cases "cycleOut w0 e")
    from cycleOut_frame [OF c] Cons.prems(1) have cb: "\<not> mAsyncCallback w1" by simp
    from cycleOut_blocking [OF Cons.prems c]
    have s1: "mState w1 \<notin> {TRANSFERRING, TRANSFER_PAUSED}" .
    from Cons.IH [OF cb s1] Cons.prems c show ?case
      by auto
  qed
  have "mState w = DRAINING"
    if "mState w \<notin> {TRANSFERRING, TRANSFER_PAUSED}" and "blockingResolution w e" for w e
    using that by (auto simp: blockingResolution_def)
  with inv show ?thesis by blast
qed

theorem blocking_mode_never_transferring_witness:
  "\<not> mAsyncCallback sampleWorker
   \<and> mState sampleWorker \<notin> {TRANSFERRING, TRANSFER_PAUSED}
   \<and> mFrameSize sampleWorker \<noteq> 0
   \<and> mState (fst (cycleOut sampleWorker (sampleEnv\<lparr>command := Some start\<rparr>)))
       \<notin> {TRANSFERRING, TRANSFER_PAUSED}"
proof -
  have h1: "\<not> mAsyncCallback sampleWorker" by (simp add: sampleWorker_def)
  have h2: "mState sampleWorker \<notin> {TRANSFERRING, TRANSFER_PAUSED}" by (simp add: sampleWorker_def)
  have h3: "mFrameSize sampleWorker \<noteq> 0" by (simp add: sampleWorker_def)
  have "fst (cycleOut sampleWorker (sampleEnv\<lparr>command := Some start\<rparr>))
          \<in> set (sampleWorker
                   # map fst (cycles cycleOut sampleWorker [sampleEnv\<lparr>command := Some start\<rparr>]))"
    by (simp split: prod.splits)
  with blocking_mode_never_transferring [OF h1 h2 h3, of "[sampleEnv\<lparr>command := Some start\<rparr>]"]
  have "mState (fst (cycleOut sampleWorker (sampleEnv\<lparr>command := Some start\<rparr>)))
          \<notin> {TRANSFERRING, TRANSFER_PAUSED}"
    by blast
  with h1 h2 h3 show ?thesis by blast
qed

end
